theory Spec2Isabelle
  imports Main
begin

section \<open>Python string primitives\<close>

text \<open>
  Strings are modelled as lists of characters. The text handled by the exporter
  (package names, release strings, the output of \<^verbatim>\<open>rpm -qip\<close>) is ASCII; the
  character classes below are the ASCII part of Python's classes.
\<close>

fun startswith :: "string \<Rightarrow> string \<Rightarrow> bool" where
  "startswith s [] = True"
| "startswith [] (p # ps) = False"
| "startswith (c # cs) (p # ps) = (c = p \<and> startswith cs ps)"

text \<open>\<^verbatim>\<open>sub in s\<close> on strings: \<open>sub\<close> occurs in \<open>s\<close> as a contiguous block.\<close>

fun str_contains :: "string \<Rightarrow> string \<Rightarrow> bool" where
  "str_contains sub [] = (sub = [])"
| "str_contains sub (c # cs) = (startswith (c # cs) sub \<or> str_contains sub cs)"

definition endswith :: "string \<Rightarrow> string \<Rightarrow> bool" where
  "endswith s suf = startswith (rev s) (rev suf)"

section \<open>Noarch reconciliation\<close>

text \<open>
  One entry of the package listing requested by \<^verbatim>\<open>retrieve_all_packages_from_pulp\<close>:
  the query asks for the fields name, version, release, sha256 and pulp_href of the
  packages whose architecture is noarch, so the architecture is fixed by the query and
  is not a field of the entry.
\<close>

record package =
  pkg_name :: string
  pkg_version :: string
  pkg_release :: string
  sha256 :: string
  pulp_href :: string

text \<open>
  A paginated answer of the content service: the results of the page and, when there
  is one, the page that the \<^verbatim>\<open>next\<close> link leads to.
\<close>

datatype response = Response "package list" "response option"

text \<open>The calls made on the content service client, in the order they are issued.\<close>

datatype pulp_call =
    GetRepoLatestVersion string
  | RequestGet
  | ModifyRepository string "string list" "string list"
  | CreateRpmPublication string

text \<open>
  What the service answers: the latest version of a repository and the first page of
  the noarch listing of a version. The client class itself is not part of the sources
  under study, so its answers are parameters.
\<close>

record pulp_service =
  latest_version :: "string \<Rightarrow> string"
  noarch_listing :: "string \<Rightarrow> response"

record exporter_flags =
  copy_noarch_packages :: bool
  only_check_noarch :: bool
  show_differ_packages :: bool

text \<open>
  \<^verbatim>\<open>retrieve_all_packages_from_pulp\<close>: the results of the first page, extended by
  the results of every following page; one GET request per page.
\<close>

fun collect_pages :: "response \<Rightarrow> package list \<times> pulp_call list" where
  "collect_pages (Response results None) = (results, [RequestGet])"
| "collect_pages (Response results (Some nxt)) =
     (case collect_pages nxt of (others, calls) \<Rightarrow> (results @ others, RequestGet # calls))"

definition retrieve_all_packages_from_pulp ::
  "pulp_service \<Rightarrow> string \<Rightarrow> package list \<times> pulp_call list" where
  "retrieve_all_packages_from_pulp pulp latest_repo_version =
     collect_pages (noarch_listing pulp latest_repo_version)"

text \<open>
  The generator expression under \<^verbatim>\<open>next(..., None)\<close>: the first destination
  package with the same name, version and release.
\<close>

definition compared_pkg :: "package list \<Rightarrow> package \<Rightarrow> package option" where
  "compared_pkg destination_repo_packages package_dict =
     find (\<lambda>pkg. pkg_name pkg = pkg_name package_dict
               \<and> pkg_version pkg = pkg_version package_dict
               \<and> pkg_release pkg = pkg_release package_dict)
          destination_repo_packages"

text \<open>
  The body of the loop over the source packages; the state is the pair
  \<open>(packages_to_add, packages_to_remove)\<close>.
\<close>

definition compare_package ::
  "exporter_flags \<Rightarrow> package list \<Rightarrow> package \<Rightarrow> string list \<times> string list
     \<Rightarrow> string list \<times> string list" where
  "compare_package flags destination_repo_packages package_dict st =
     (case st of (packages_to_add, packages_to_remove) \<Rightarrow>
        let is_modular = str_contains ''.module_el'' (pkg_release package_dict) in
        (case compared_pkg destination_repo_packages package_dict of
           None \<Rightarrow>
             if is_modular \<or> show_differ_packages flags then st
             else (packages_to_add @ [pulp_href package_dict], packages_to_remove)
         | Some found \<Rightarrow>
             if sha256 package_dict \<noteq> sha256 found
             then (packages_to_add @ [pulp_href package_dict],
                   packages_to_remove @ [pulp_href found])
             else st))"

fun compare_packages ::
  "exporter_flags \<Rightarrow> package list \<Rightarrow> package list \<Rightarrow> string list \<times> string list
     \<Rightarrow> string list \<times> string list" where
  "compare_packages flags dst [] st = st"
| "compare_packages flags dst (p # ps) st =
     compare_packages flags dst ps (compare_package flags dst p st)"

text \<open>The two lists as they stand when the loop is left.\<close>

definition reconcile ::
  "exporter_flags \<Rightarrow> package list \<Rightarrow> package list \<Rightarrow> string list \<times> string list" where
  "reconcile flags source_repo_packages destination_repo_packages =
     compare_packages flags destination_repo_packages source_repo_packages ([], [])"

text \<open>
  \<^verbatim>\<open>copy_noarch_packages_from_x86_64_repo\<close>: the result is the list of calls made on
  the content service.
\<close>

definition copy_noarch_packages_from_x86_64_repo ::
  "exporter_flags \<Rightarrow> pulp_service \<Rightarrow> package list \<Rightarrow> string \<Rightarrow> pulp_call list" where
  "copy_noarch_packages_from_x86_64_repo flags pulp source_repo_packages destination_repo_href =
     (case retrieve_all_packages_from_pulp pulp (latest_version pulp destination_repo_href) of
        (destination_repo_packages, reads) \<Rightarrow>
          (case reconcile flags source_repo_packages destination_repo_packages of
             (packages_to_add, packages_to_remove) \<Rightarrow>
               GetRepoLatestVersion destination_repo_href # reads @
               (if packages_to_add \<noteq> [] \<and> \<not> only_check_noarch flags
                then [ModifyRepository destination_repo_href packages_to_add packages_to_remove,
                      CreateRpmPublication destination_repo_href]
                else [])))"

fun is_modify :: "pulp_call \<Rightarrow> bool" where
  "is_modify (ModifyRepository h a r) = True"
| "is_modify c = False"

section \<open>Signature verification\<close>

subsection \<open>Character classes and string methods\<close>

text \<open>\<^verbatim>\<open>str.isspace\<close> and the class \<^verbatim>\<open>\s\<close> on ASCII characters.\<close>

definition is_space :: "char \<Rightarrow> bool" where
  "is_space c = (c \<in> set [CHR 0x09, CHR 0x0A, CHR 0x0B, CHR 0x0C, CHR 0x0D,
                            CHR 0x1C, CHR 0x1D, CHR 0x1E, CHR 0x1F, CHR 0x20])"

text \<open>The class \<^verbatim>\<open>\w\<close> on ASCII characters.\<close>

definition is_word :: "char \<Rightarrow> bool" where
  "is_word c = (c \<in> set ''abcdefghijklmnopqrstuvwxyzABCDEFGHIJKLMNOPQRSTUVWXYZ0123456789_'')"

fun translate :: "string \<Rightarrow> string \<Rightarrow> char \<Rightarrow> char" where
  "translate (a # as) (b # bs) c = (if c = a then b else translate as bs c)"
| "translate as bs c = c"

definition lower_char :: "char \<Rightarrow> char" where
  "lower_char c = translate ''ABCDEFGHIJKLMNOPQRSTUVWXYZ'' ''abcdefghijklmnopqrstuvwxyz'' c"

definition lower :: "string \<Rightarrow> string" where
  "lower s = map lower_char s"

definition strip :: "string \<Rightarrow> string" where
  "strip s = rev (dropWhile is_space (rev (dropWhile is_space s)))"

text \<open>\<^verbatim>\<open>out.split('\n')\<close>: the pieces between line feeds, empty pieces included.\<close>

fun split_lines :: "string \<Rightarrow> string list" where
  "split_lines [] = [[]]"
| "split_lines (c # cs) =
     (if c = CHR 0x0A then [] # split_lines cs
      else (case split_lines cs of
              [] \<Rightarrow> [[c]]
            | l # ls \<Rightarrow> (c # l) # ls))"

text \<open>\<^verbatim>\<open>os.path.join\<close> of two components (posix).\<close>

definition path_join :: "string \<Rightarrow> string \<Rightarrow> string" where
  "path_join a b =
     (if startswith b ''/'' then b
      else if a = [] \<or> endswith a ''/'' then a @ b
      else a @ ''/'' @ b)"

text \<open>\<^verbatim>\<open>'\n'.join(lines)\<close>.\<close>

fun join_lines :: "string list \<Rightarrow> string" where
  "join_lines [] = []"
| "join_lines [l] = l"
| "join_lines (l # ls) = l @ [CHR 0x0A] @ join_lines ls"

text \<open>
  A Python set of strings, kept as a list without repetitions. Python leaves the
  iteration order of a set open; the list keeps the order of insertion.
\<close>

definition set_add :: "string \<Rightarrow> string list \<Rightarrow> string list" where
  "set_add x xs = (if x \<in> set xs then xs else xs @ [x])"

subsection \<open>The signature pattern\<close>

text \<open>
  The compiled pattern is
  \<^verbatim>\<open>(Signature[\s:]+)(.*Key ID )?(?P<key_id>(\()?\w+(\))?)\<close> with \<^verbatim>\<open>re.IGNORECASE\<close>.
  The functions below follow the backtracking matcher piece by piece, each trying
  its alternatives in the order the matcher does, and return the text of the group
  \<^verbatim>\<open>key_id\<close> of the first match that is found.
\<close>

text \<open>A literal of the pattern matched at the start of \<open>s\<close>, letter case ignored.\<close>

definition startswith_ci :: "string \<Rightarrow> string \<Rightarrow> bool" where
  "startswith_ci s lit = startswith (lower s) (lower lit)"

text \<open>\<^verbatim>\<open>(\))?\<close>: a closing parenthesis is taken when there is one.\<close>

definition closing :: "string \<Rightarrow> string" where
  "closing s = (case s of [] \<Rightarrow> [] | c # cs \<Rightarrow> if c = CHR '')'' then [c] else [])"

text \<open>\<^verbatim>\<open>\w+(\))?\<close>: the longest run of word characters, at least one.\<close>

definition word_run :: "string \<Rightarrow> string option" where
  "word_run s =
     (let w = takeWhile is_word s in
      if w = [] then None else Some (w @ closing (dropWhile is_word s)))"

text \<open>
  The group \<^verbatim>\<open>key_id\<close> at the start of \<open>s\<close>. An opening parenthesis is taken
  first; giving it back leaves \<^verbatim>\<open>\w+\<close> in front of that parenthesis, where it fails.
\<close>

definition key_id_group :: "string \<Rightarrow> string option" where
  "key_id_group s =
     (case s of
        [] \<Rightarrow> None
      | c # cs \<Rightarrow>
          if c = CHR ''(''
          then (case word_run cs of Some w \<Rightarrow> Some (c # w) | None \<Rightarrow> None)
          else word_run s)"

definition key_label_here :: "string \<Rightarrow> string option" where
  "key_label_here s =
     (if startswith_ci s ''Key ID '' then key_id_group (drop 7 s) else None)"

text \<open>
  \<^verbatim>\<open>.*Key ID \<close> followed by the group: the greedy \<^verbatim>\<open>.*\<close> is tried longest first
  and does not pass a line feed.
\<close>

fun key_label :: "string \<Rightarrow> string option" where
  "key_label [] = key_label_here []"
| "key_label (c # cs) =
     (if c = CHR 0x0A then key_label_here (c # cs)
      else (case key_label cs of
              Some k \<Rightarrow> Some k
            | None \<Rightarrow> key_label_here (c # cs)))"

text \<open>What follows \<^verbatim>\<open>Signature[\s:]+\<close>: the optional label group is tried first.\<close>

definition after_separator :: "string \<Rightarrow> string option" where
  "after_separator s =
     (case key_label s of Some k \<Rightarrow> Some k | None \<Rightarrow> key_id_group s)"

text \<open>\<^verbatim>\<open>[\s:]+\<close> and the rest of the pattern: the longest run is tried first.\<close>

fun separator_run :: "string \<Rightarrow> string option" where
  "separator_run [] = None"
| "separator_run (c # cs) =
     (if is_space c \<or> c = CHR '':''
      then (case separator_run cs of
              Some k \<Rightarrow> Some k
            | None \<Rightarrow> after_separator cs)
      else None)"

definition match_here :: "string \<Rightarrow> string option" where
  "match_here s =
     (if startswith_ci s ''Signature'' then separator_run (drop 9 s) else None)"

text \<open>\<^verbatim>\<open>signature_regex.search\<close>: the leftmost position where the pattern matches.\<close>

fun signature_regex_search :: "string \<Rightarrow> string option" where
  "signature_regex_search [] = match_here []"
| "signature_regex_search (c # cs) =
     (case match_here (c # cs) of
        Some k \<Rightarrow> Some k
      | None \<Rightarrow> signature_regex_search cs)"

text \<open>
  The characters a matched key id is made of: word characters and the two parentheses.
\<close>

definition key_char :: "char \<Rightarrow> bool" where
  "key_char c = (is_word c \<or> c = CHR ''('' \<or> c = CHR '')'')"

subsection \<open>The scan of an exported directory\<close>

record sign_key =
  keyid :: string
  key_platform_id :: int

text \<open>
  The machine the exporter runs on: the names \<^verbatim>\<open>os.listdir\<close> returns for a
  directory, and exit code, standard output and standard error of
  \<^verbatim>\<open>sudo rpm -qip\<close> on a path.
\<close>

record host =
  listdir :: "string \<Rightarrow> string list"
  rpm_qip :: "string \<Rightarrow> int \<times> string \<times> string"

record violations =
  errored_packages :: "string list"
  no_signature_packages :: "string list"
  wrong_signature_packages :: "string list"

definition no_violations :: violations where
  "no_violations =
     \<lparr>errored_packages = [], no_signature_packages = [], wrong_signature_packages = []\<rparr>"

text \<open>The first stripped line of the output that starts with \<^verbatim>\<open>Signature\<close>.\<close>

definition signature_line :: "string \<Rightarrow> string option" where
  "signature_line out = find (\<lambda>l. startswith l ''Signature'') (map strip (split_lines out))"

text \<open>
  The loop over \<^verbatim>\<open>known_subkeys.items()\<close>: whether some list of subkeys holds
  the key id.
\<close>

definition signed_with_subkey :: "(string \<times> string list) list \<Rightarrow> string \<Rightarrow> bool" where
  "signed_with_subkey known_subkeys pkg_key_id =
     list_ex (\<lambda>(key, subkeys). pkg_key_id \<in> set subkeys) known_subkeys"

text \<open>
  The body of the loop over the directory. Every \<^verbatim>\<open>continue\<close> is a branch that
  returns the sets as they are; the calls of the logger leave the sets alone and are
  left out. The entry of \<open>wrong_signature_packages\<close> is added after the test of
  \<open>signed_with_subkey\<close>, whose only branch logs: it is added on both sides of the test.
\<close>

definition check_package ::
  "host \<Rightarrow> string list \<Rightarrow> (string \<times> string list) list \<Rightarrow> string \<Rightarrow> string
     \<Rightarrow> violations \<Rightarrow> violations" where
  "check_package h key_ids_lower known_subkeys repository_path package st =
     (let package_path = path_join repository_path package in
      if \<not> endswith package_path ''.rpm'' then st
      else
        (case rpm_qip h package_path of (exit_code, out, err) \<Rightarrow>
           if exit_code \<noteq> 0
           then st\<lparr>errored_packages := set_add package_path (errored_packages st)\<rparr>
           else
             (case signature_line out of
                None \<Rightarrow> st
              | Some line \<Rightarrow>
                  (case signature_regex_search line of
                     None \<Rightarrow>
                       st\<lparr>errored_packages := set_add package_path (errored_packages st)\<rparr>
                   | Some key_id \<Rightarrow>
                       let pkg_key_id = lower key_id in
                       if str_contains ''none'' pkg_key_id
                       then st\<lparr>no_signature_packages :=
                                 set_add package_path (no_signature_packages st)\<rparr>
                       else if pkg_key_id \<notin> set key_ids_lower
                       then
                         (if \<not> signed_with_subkey known_subkeys pkg_key_id
                          then st\<lparr>wrong_signature_packages :=
                                    set_add (package_path @ '' '' @ pkg_key_id)
                                      (wrong_signature_packages st)\<rparr>
                          else st\<lparr>wrong_signature_packages :=
                                    set_add (package_path @ '' '' @ pkg_key_id)
                                      (wrong_signature_packages st)\<rparr>)
                       else st))))"

fun check_packages ::
  "host \<Rightarrow> string list \<Rightarrow> (string \<times> string list) list \<Rightarrow> string \<Rightarrow> string list
     \<Rightarrow> violations \<Rightarrow> violations" where
  "check_packages h key_ids_lower known_subkeys repository_path [] st = st"
| "check_packages h key_ids_lower known_subkeys repository_path (package # others) st =
     check_packages h key_ids_lower known_subkeys repository_path others
       (check_package h key_ids_lower known_subkeys repository_path package st)"

text \<open>The three sets as they stand when the loop over the directory is left.\<close>

definition scan_directory ::
  "host \<Rightarrow> (string \<times> string list) list \<Rightarrow> string \<Rightarrow> sign_key list \<Rightarrow> violations" where
  "scan_directory h known_subkeys repository_path sign_keys =
     check_packages h (map (\<lambda>i. lower (keyid i)) sign_keys) known_subkeys repository_path
       (listdir h repository_path) no_violations"

definition report_lines :: "violations \<Rightarrow> string list" where
  "report_lines v =
     (if errored_packages v \<noteq> []
      then ''Packages that we cannot get information about:'' # errored_packages v else [])
     @ (if no_signature_packages v \<noteq> []
        then ''Packages without signature:'' # no_signature_packages v else [])
     @ (if wrong_signature_packages v \<noteq> []
        then ''Packages with wrong signature:'' # wrong_signature_packages v else [])"

text \<open>
  \<^verbatim>\<open>check_rpms_signature\<close>: the state is the content of the file
  \<^verbatim>\<open>~/export.err\<close>, \<open>None\<close> when the file does not exist. Mode \<^verbatim>\<open>wt\<close> creates
  the file, mode \<^verbatim>\<open>at\<close> writes at its end.
\<close>

definition check_rpms_signature ::
  "host \<Rightarrow> (string \<times> string list) list \<Rightarrow> string \<Rightarrow> sign_key list
     \<Rightarrow> string option \<Rightarrow> string option" where
  "check_rpms_signature h known_subkeys repository_path sign_keys export_error_file =
     (let v = scan_directory h known_subkeys repository_path sign_keys in
      if errored_packages v \<noteq> [] \<or> no_signature_packages v \<noteq> []
           \<or> wrong_signature_packages v \<noteq> []
      then (case export_error_file of
              None \<Rightarrow> Some (join_lines (report_lines v))
            | Some content \<Rightarrow> Some (content @ join_lines (report_lines v)))
      else export_error_file)"

text \<open>
  What the constructor of the exporter does to the file: it is removed when it exists.
\<close>

definition exporter_init :: "string option \<Rightarrow> string option" where
  "exporter_init export_error_file =
     (case export_error_file of None \<Rightarrow> None | Some content \<Rightarrow> None)"

text \<open>
  The verifications of one instance of the exporter, in the order of the exported
  paths, each with the keys of its platform.
\<close>

fun verify_paths ::
  "host \<Rightarrow> (string \<times> string list) list \<Rightarrow> (string \<times> sign_key list) list
     \<Rightarrow> string option \<Rightarrow> string option" where
  "verify_paths h known_subkeys [] f = f"
| "verify_paths h known_subkeys ((repo_path, sign_keys) # others) f =
     verify_paths h known_subkeys others
       (check_rpms_signature h known_subkeys repo_path sign_keys f)"

text \<open>
  One run of the script, as far as the file is concerned: \<^verbatim>\<open>main\<close> builds one
  exporter and the export verifies the exported paths.
\<close>

definition export_run ::
  "host \<Rightarrow> (string \<times> string list) list \<Rightarrow> (string \<times> sign_key list) list
     \<Rightarrow> string option \<Rightarrow> string option" where
  "export_run h known_subkeys paths export_error_file =
     verify_paths h known_subkeys paths (exporter_init export_error_file)"

section \<open>Pairing of repositories for the reconciliation\<close>

record repository =
  repo_id :: int
  repo_name :: string
  repo_arch :: string
  repo_debug :: bool
  repo_production :: "bool option"
  repo_pulp_href :: string
  repo_export_path :: string

record platform =
  platform_id :: int
  platform_repos :: "repository list"
  platform_sign_keys :: "sign_key list"

definition get_full_repo_name :: "repository \<Rightarrow> string" where
  "get_full_repo_name repo =
     repo_name repo @ ''-'' @ (if repo_debug repo then ''debuginfo-'' else []) @ repo_arch repo"

text \<open>
  A Python dictionary in the order of insertion: storing under a key that is present
  replaces the value where it stands, storing under a new key adds it at the end.
\<close>

fun dict_store :: "'k \<Rightarrow> 'v \<Rightarrow> ('k \<times> 'v) list \<Rightarrow> ('k \<times> 'v) list" where
  "dict_store k v [] = [(k, v)]"
| "dict_store k v ((k', v') # d) =
     (if k' = k then (k, v) # d else (k', v') # dict_store k v d)"

type_synonym repo_dict = "(string \<times> string \<times> bool) list"

text \<open>
  One reconciliation handed to \<^verbatim>\<open>asyncio.gather\<close>: the arguments of
  \<^verbatim>\<open>copy_noarch_packages_from_x86_64_repo\<close>, the packages of the source being
  those listed under the source's handle.
\<close>

record copy_task =
  source_repo_name :: string
  source_repo_href :: string
  destination_repo_name :: string
  destination_repo_href :: string

definition tasks_of_source :: "string \<times> string \<times> bool \<Rightarrow> repo_dict \<Rightarrow> copy_task list" where
  "tasks_of_source src destination_repo_dict =
     (case src of (src_name, repo_href, source_is_debug) \<Rightarrow>
        concat (map (\<lambda>(dest_repo_name, dest_repo_href, dest_repo_is_debug).
                       if source_is_debug \<noteq> dest_repo_is_debug then []
                       else [\<lparr>source_repo_name = src_name, source_repo_href = repo_href,
                              destination_repo_name = dest_repo_name,
                              destination_repo_href = dest_repo_href\<rparr>])
                    destination_repo_dict))"

text \<open>\<^verbatim>\<open>prepare_and_execute_async_tasks\<close>: the list of tasks that is gathered.\<close>

definition prepare_and_execute_async_tasks ::
  "exporter_flags \<Rightarrow> repo_dict \<Rightarrow> repo_dict \<Rightarrow> copy_task list" where
  "prepare_and_execute_async_tasks flags source_repo_dict destination_repo_dict =
     (if \<not> copy_noarch_packages flags then []
      else concat (map (\<lambda>src. tasks_of_source src destination_repo_dict) source_repo_dict))"

text \<open>
  The test that opens the loop over the repositories of a platform in
  \<^verbatim>\<open>export_repos_from_pulp\<close>: the repository is passed over when it is not among
  the requested ids or when its production flag is \<^verbatim>\<open>False\<close>.
\<close>

definition passed_over :: "int list option \<Rightarrow> repository \<Rightarrow> bool" where
  "passed_over repo_ids repo =
     ((case repo_ids of None \<Rightarrow> False | Some ids \<Rightarrow> repo_id repo \<notin> set ids)
      \<or> repo_production repo = Some False)"

text \<open>
  The part of that loop's body that fills \<open>repos_x86_64\<close> and \<open>repos_ppc64le\<close>.
  Both dictionaries are created before the loop over the platforms and are shared by
  all of them.
\<close>

definition register_repo ::
  "int list option \<Rightarrow> repository \<Rightarrow> repo_dict \<times> repo_dict \<Rightarrow> repo_dict \<times> repo_dict" where
  "register_repo repo_ids repo dicts =
     (case dicts of (repos_x86_64, repos_ppc64le) \<Rightarrow>
        if passed_over repo_ids repo then dicts
        else
          (let full_name = get_full_repo_name repo;
               entry = (repo_pulp_href repo, repo_debug repo) in
           (if repo_arch repo = ''x86_64'' then dict_store full_name entry repos_x86_64
            else repos_x86_64,
            if repo_arch repo = ''ppc64le'' then dict_store full_name entry repos_ppc64le
            else repos_ppc64le)))"

fun register_repos ::
  "int list option \<Rightarrow> repository list \<Rightarrow> repo_dict \<times> repo_dict \<Rightarrow> repo_dict \<times> repo_dict" where
  "register_repos repo_ids [] dicts = dicts"
| "register_repos repo_ids (repo # others) dicts =
     register_repos repo_ids others (register_repo repo_ids repo dicts)"

text \<open>
  The reconciliations started by \<^verbatim>\<open>export_repos_from_pulp\<close>; \<open>db_platforms\<close>
  are the platforms returned by its query, whose repositories are visited platform
  after platform.
\<close>

definition export_repos_from_pulp_tasks ::
  "exporter_flags \<Rightarrow> int list option \<Rightarrow> platform list \<Rightarrow> copy_task list" where
  "export_repos_from_pulp_tasks flags repo_ids db_platforms =
     (case register_repos repo_ids (concat (map platform_repos db_platforms)) ([], []) of
        (repos_x86_64, repos_ppc64le) \<Rightarrow>
          prepare_and_execute_async_tasks flags repos_x86_64 repos_ppc64le)"

text \<open>
  The loop of \<^verbatim>\<open>check_noarch_in_user_distribution_repos\<close> over the repositories of
  a distribution: the dictionaries are keyed by the plain name of the repository, and
  every architecture but \<^verbatim>\<open>src\<close> and \<^verbatim>\<open>x86_64\<close> is a destination.
\<close>

definition register_distribution_repo ::
  "repository \<Rightarrow> repo_dict \<times> repo_dict \<Rightarrow> repo_dict \<times> repo_dict" where
  "register_distribution_repo repo dicts =
     (case dicts of (repos_x86_64, other_repos) \<Rightarrow>
        if repo_arch repo = ''src'' then dicts
        else if repo_arch repo = ''x86_64''
        then (dict_store (repo_name repo) (repo_pulp_href repo, repo_debug repo) repos_x86_64,
              other_repos)
        else (repos_x86_64,
              dict_store (repo_name repo) (repo_pulp_href repo, repo_debug repo) other_repos))"

fun register_distribution_repos ::
  "repository list \<Rightarrow> repo_dict \<times> repo_dict \<Rightarrow> repo_dict \<times> repo_dict" where
  "register_distribution_repos [] dicts = dicts"
| "register_distribution_repos (repo # others) dicts =
     register_distribution_repos others (register_distribution_repo repo dicts)"

text \<open>
  The reconciliations started by \<^verbatim>\<open>check_noarch_in_user_distribution_repos\<close> for
  the repositories of the distribution found by its query.
\<close>

definition check_noarch_in_user_distribution_repos ::
  "exporter_flags \<Rightarrow> repository list \<Rightarrow> copy_task list" where
  "check_noarch_in_user_distribution_repos flags distr_repos =
     (case register_distribution_repos distr_repos ([], []) of
        (repos_x86_64, other_repos) \<Rightarrow>
          prepare_and_execute_async_tasks flags repos_x86_64 other_repos)"

section \<open>Ownership of the exported paths\<close>

text \<open>
  The external commands run on an exported path. Each is a process started through
  \<^verbatim>\<open>plumbum\<close>, or a method of the exporter that starts such processes or calls
  the signing service; each can raise.
\<close>

datatype command =
    Chown string string
  | RemoveSnippets string
  | CheckRpmsSignature string
  | RegenerateRepoMetadata string
  | UpdatePpc64leErrata string
  | RepomdSigner string

datatype failure = Raised command

text \<open>
  The file system as far as ownership goes: the owner of every path and the commands
  run so far.
\<close>

record filesystem =
  path_owner :: "string \<Rightarrow> string"
  commands_run :: "command list"

text \<open>
  Whether a command fails is decided by the environment, from the commands run before
  it and the command itself. A command that fails raises and changes no owner; a
  \<^verbatim>\<open>chown\<close> that succeeds sets the owner of its path.
\<close>

definition run_command ::
  "(command list \<Rightarrow> command \<Rightarrow> bool) \<Rightarrow> command \<Rightarrow> filesystem
     \<Rightarrow> (failure + unit) \<times> filesystem" where
  "run_command fails c fs =
     (let fs' = fs\<lparr>commands_run := commands_run fs @ [c]\<rparr> in
      if fails (commands_run fs) c then (Inl (Raised c), fs')
      else (case c of
              Chown user path \<Rightarrow> (Inr (), fs'\<lparr>path_owner := (path_owner fs')(path := user)\<rparr>)
            | _ \<Rightarrow> (Inr (), fs')))"

text \<open>Statements in sequence: the first one that raises ends the sequence.\<close>

fun run_commands ::
  "(command list \<Rightarrow> command \<Rightarrow> bool) \<Rightarrow> command list \<Rightarrow> filesystem
     \<Rightarrow> (failure + unit) \<times> filesystem" where
  "run_commands fails [] fs = (Inr (), fs)"
| "run_commands fails (c # cs) fs =
     (case run_command fails c fs of
        (Inl e, fs') \<Rightarrow> (Inl e, fs')
      | (Inr u, fs') \<Rightarrow> run_commands fails cs fs')"

text \<open>
  \<^verbatim>\<open>try: body finally: handler\<close>: the handler runs whatever the body did; an
  exception of the handler replaces the outcome of the body.
\<close>

definition try_finally ::
  "(filesystem \<Rightarrow> (failure + unit) \<times> filesystem)
     \<Rightarrow> (filesystem \<Rightarrow> (failure + unit) \<times> filesystem)
     \<Rightarrow> filesystem \<Rightarrow> (failure + unit) \<times> filesystem" where
  "try_finally body handler fs =
     (case body fs of (r, fs1) \<Rightarrow>
        (case handler fs1 of
           (Inl e, fs2) \<Rightarrow> (Inl e, fs2)
         | (Inr u, fs2) \<Rightarrow> (r, fs2)))"

definition pulp_system_user :: string where
  "pulp_system_user = ''pulp''"

text \<open>
  The body of the loop over \<open>exported_paths\<close> in \<^verbatim>\<open>export_repos_from_pulp\<close>;
  \<open>path_exists\<close> is the answer of \<^verbatim>\<open>os.path.exists\<close>.
\<close>

definition verify_exported_path ::
  "(command list \<Rightarrow> command \<Rightarrow> bool) \<Rightarrow> string \<Rightarrow> bool \<Rightarrow> string \<Rightarrow> filesystem
     \<Rightarrow> (failure + unit) \<times> filesystem" where
  "verify_exported_path fails current_user path_exists repo_path fs =
     (if \<not> path_exists then (Inr (), fs)
      else try_finally
             (run_commands fails
                [Chown current_user repo_path,
                 RemoveSnippets repo_path,
                 CheckRpmsSignature repo_path])
             (run_command fails (Chown pulp_system_user repo_path)) fs)"

text \<open>
  The body of the loop over \<open>exported_paths\<close> in \<^verbatim>\<open>main\<close>; \<open>repo_path\<close> is the
  parent of \<open>exp_path\<close> and \<open>repodata\<close> its \<^verbatim>\<open>repodata\<close> directory.
\<close>

definition sign_exported_path ::
  "(command list \<Rightarrow> command \<Rightarrow> bool) \<Rightarrow> string \<Rightarrow> bool \<Rightarrow> string \<Rightarrow> string \<Rightarrow> string
     \<Rightarrow> filesystem \<Rightarrow> (failure + unit) \<times> filesystem" where
  "sign_exported_path fails current_user path_exists exp_path repo_path repodata fs =
     (if \<not> path_exists then (Inr (), fs)
      else try_finally
             (run_commands fails
                ([Chown current_user repo_path,
                  RegenerateRepoMetadata repo_path]
                 @ (if str_contains ''ppc64le'' exp_path then [UpdatePpc64leErrata repodata]
                    else [])
                 @ [RepomdSigner repodata]))
             (run_command fails (Chown pulp_system_user repo_path)) fs)"

section \<open>Properties of the reconciliation\<close>

lemma collect_pages_calls: "c \<in> set (snd (collect_pages r)) \<Longrightarrow> c = RequestGet"
  by (induction r arbitrary: c rule: collect_pages.induct) (auto split: prod.splits)

lemma collect_pages_no_modify: "c \<in> set (snd (collect_pages r)) \<Longrightarrow> \<not> is_modify c"
  using collect_pages_calls [of c r] by auto

lemma compare_package_lengths:
  "compare_package flags dst p (a, r) = (a', r') \<Longrightarrow> length r \<le> length a
     \<Longrightarrow> length r' \<le> length a'"
  by (auto simp: compare_package_def Let_def split: option.splits if_splits)

lemma compare_packages_lengths:
  "compare_packages flags dst ps (a, r) = (a', r') \<Longrightarrow> length r \<le> length a
     \<Longrightarrow> length r' \<le> length a'"
proof (induction ps arbitrary: a r)
  case Nil
  then show ?case by simp
next
  case (Cons p ps)
  obtain a1 r1 where s: "compare_package flags dst p (a, r) = (a1, r1)"
    by (cases "compare_package flags dst p (a, r)")
  from compare_package_lengths [OF s Cons.prems(2)] have "length r1 \<le> length a1" .
  with Cons.IH [of a1 r1] Cons.prems(1) s show ?case by simp
qed

lemma reconcile_lengths:
  "length (snd (reconcile flags src dst)) \<le> length (fst (reconcile flags src dst))"
proof -
  obtain a r where s: "compare_packages flags dst src ([], []) = (a, r)"
    by (cases "compare_packages flags dst src ([], [])")
  from compare_packages_lengths [OF s] have "length r \<le> length a" by simp
  with s show ?thesis by (simp add: reconcile_def)
qed

lemma compare_packages_add_set:
  "set (fst (compare_packages flags dst ps st)) =
     set (fst st) \<union>
     {pulp_href p | p. p \<in> set ps \<and>
        (case compared_pkg dst p of
           None \<Rightarrow> \<not> str_contains ''.module_el'' (pkg_release p) \<and> \<not> show_differ_packages flags
         | Some d \<Rightarrow> sha256 p \<noteq> sha256 d)}"
proof (induction ps arbitrary: st)
  case Nil
  then show ?case by simp
next
  case (Cons p ps)
  have "set (fst (compare_package flags dst p st)) =
          set (fst st) \<union>
          (if (case compared_pkg dst p of
                 None \<Rightarrow> \<not> str_contains ''.module_el'' (pkg_release p)
                          \<and> \<not> show_differ_packages flags
               | Some d \<Rightarrow> sha256 p \<noteq> sha256 d)
           then {pulp_href p} else {})"
    by (cases st) (auto simp: compare_package_def Let_def split: option.splits)
  with Cons.IH [of "compare_package flags dst p st"] show ?case by auto
qed

lemma compare_packages_remove_set:
  "set (snd (compare_packages flags dst ps st)) =
     set (snd st) \<union>
     {pulp_href d | p d. p \<in> set ps \<and> compared_pkg dst p = Some d \<and> sha256 p \<noteq> sha256 d}"
proof (induction ps arbitrary: st)
  case Nil
  then show ?case by simp
next
  case (Cons p ps)
  have "set (snd (compare_package flags dst p st)) =
          set (snd st) \<union> {pulp_href d | d. compared_pkg dst p = Some d \<and> sha256 p \<noteq> sha256 d}"
    by (cases st) (auto simp: compare_package_def Let_def split: option.splits)
  with Cons.IH [of "compare_package flags dst p st"] show ?case by auto
qed

lemma compared_pkg_None:
  "(compared_pkg dst p = None) =
     (\<forall>d\<in>set dst. \<not> (pkg_name d = pkg_name p \<and> pkg_version d = pkg_version p
                         \<and> pkg_release d = pkg_release p))"
  by (auto simp: compared_pkg_def find_None_iff)

text \<open>
  Claim C4, as the code has it. Let \<open>p\<close> be a package of the source listing.
  \<^item> If \<open>p\<close> is not modular, the option that shows only differing packages is off and
    no destination package has the name, version and release of \<open>p\<close>, the handle of
    \<open>p\<close> is among the additions.
  \<^item> If the first destination package with the name, version and release of \<open>p\<close> has
    another checksum, its handle is among the removals and the handle of \<open>p\<close> among
    the additions.
  \<^item> If \<open>p\<close> is modular, no destination package has its name, version and release, and
    no other package of the source carries its handle, the handle of \<open>p\<close> is not
    among the additions.
\<close>

theorem reconcile_correctness:
  assumes "p \<in> set src"
  shows "(\<not> show_differ_packages flags \<and> \<not> str_contains ''.module_el'' (pkg_release p)
            \<and> (\<forall>d\<in>set dst. \<not> (pkg_name d = pkg_name p \<and> pkg_version d = pkg_version p
                                   \<and> pkg_release d = pkg_release p))
          \<longrightarrow> pulp_href p \<in> set (fst (reconcile flags src dst)))
       \<and> (\<forall>d. compared_pkg dst p = Some d \<and> sha256 p \<noteq> sha256 d
          \<longrightarrow> pulp_href d \<in> set (snd (reconcile flags src dst))
              \<and> pulp_href p \<in> set (fst (reconcile flags src dst)))
       \<and> (str_contains ''.module_el'' (pkg_release p)
            \<and> (\<forall>d\<in>set dst. \<not> (pkg_name d = pkg_name p \<and> pkg_version d = pkg_version p
                                   \<and> pkg_release d = pkg_release p))
            \<and> (\<forall>q\<in>set src. pulp_href q = pulp_href p \<longrightarrow> q = p)
          \<longrightarrow> pulp_href p \<notin> set (fst (reconcile flags src dst)))"
proof (intro conjI impI allI)
  assume h: "\<not> show_differ_packages flags \<and> \<not> str_contains ''.module_el'' (pkg_release p)
            \<and> (\<forall>d\<in>set dst. \<not> (pkg_name d = pkg_name p \<and> pkg_version d = pkg_version p
                                   \<and> pkg_release d = pkg_release p))"
  then have "compared_pkg dst p = None" by (simp add: compared_pkg_None)
  with h assms show "pulp_href p \<in> set (fst (reconcile flags src dst))"
    unfolding reconcile_def compare_packages_add_set by auto
next
  fix d assume h: "compared_pkg dst p = Some d \<and> sha256 p \<noteq> sha256 d"
  with assms show "pulp_href d \<in> set (snd (reconcile flags src dst))"
    unfolding reconcile_def compare_packages_remove_set by auto
  from h assms show "pulp_href p \<in> set (fst (reconcile flags src dst))"
    unfolding reconcile_def compare_packages_add_set by auto
next
  assume h: "str_contains ''.module_el'' (pkg_release p)
            \<and> (\<forall>d\<in>set dst. \<not> (pkg_name d = pkg_name p \<and> pkg_version d = pkg_version p
                                   \<and> pkg_release d = pkg_release p))
            \<and> (\<forall>q\<in>set src. pulp_href q = pulp_href p \<longrightarrow> q = p)"
  then have n: "compared_pkg dst p = None" by (simp add: compared_pkg_None)
  show "pulp_href p \<notin> set (fst (reconcile flags src dst))"
  proof
    assume "pulp_href p \<in> set (fst (reconcile flags src dst))"
    then obtain q where q: "q \<in> set src" "pulp_href q = pulp_href p"
      "(case compared_pkg dst q of
           None \<Rightarrow> \<not> str_contains ''.module_el'' (pkg_release q) \<and> \<not> show_differ_packages flags
         | Some d \<Rightarrow> sha256 q \<noteq> sha256 d)"
      unfolding reconcile_def compare_packages_add_set by auto
    with h have "q = p" by blast
    with q(3) n h show False by simp
  qed
qed

text \<open>
  The three cases of the theorem on one listing: \<open>A\<close> is missing in the destination,
  \<open>B\<close> is there with another checksum, \<open>M\<close> is modular and missing.
\<close>

theorem reconcile_correctness_witness:
  "''/pkg/1'' \<in> set (fst (reconcile
      \<lparr>copy_noarch_packages = True, only_check_noarch = False, show_differ_packages = False\<rparr>
      [\<lparr>pkg_name = ''A'', pkg_version = ''1.0'', pkg_release = ''1.el8'', sha256 = ''c1'',
        pulp_href = ''/pkg/1''\<rparr>,
       \<lparr>pkg_name = ''B'', pkg_version = ''2.0'', pkg_release = ''3.el8'', sha256 = ''c3'',
        pulp_href = ''/pkg/4''\<rparr>,
       \<lparr>pkg_name = ''M'', pkg_version = ''1.1'', pkg_release = ''2.module_el8.5.0+7'',
        sha256 = ''c5'', pulp_href = ''/pkg/6''\<rparr>]
      [\<lparr>pkg_name = ''B'', pkg_version = ''2.0'', pkg_release = ''3.el8'', sha256 = ''c4'',
        pulp_href = ''/pkg/5''\<rparr>]))
   \<and> ''/pkg/5'' \<in> set (snd (reconcile
      \<lparr>copy_noarch_packages = True, only_check_noarch = False, show_differ_packages = False\<rparr>
      [\<lparr>pkg_name = ''A'', pkg_version = ''1.0'', pkg_release = ''1.el8'', sha256 = ''c1'',
        pulp_href = ''/pkg/1''\<rparr>,
       \<lparr>pkg_name = ''B'', pkg_version = ''2.0'', pkg_release = ''3.el8'', sha256 = ''c3'',
        pulp_href = ''/pkg/4''\<rparr>,
       \<lparr>pkg_name = ''M'', pkg_version = ''1.1'', pkg_release = ''2.module_el8.5.0+7'',
        sha256 = ''c5'', pulp_href = ''/pkg/6''\<rparr>]
      [\<lparr>pkg_name = ''B'', pkg_version = ''2.0'', pkg_release = ''3.el8'', sha256 = ''c4'',
        pulp_href = ''/pkg/5''\<rparr>]))
   \<and> ''/pkg/4'' \<in> set (fst (reconcile
      \<lparr>copy_noarch_packages = True, only_check_noarch = False, show_differ_packages = False\<rparr>
      [\<lparr>pkg_name = ''A'', pkg_version = ''1.0'', pkg_release = ''1.el8'', sha256 = ''c1'',
        pulp_href = ''/pkg/1''\<rparr>,
       \<lparr>pkg_name = ''B'', pkg_version = ''2.0'', pkg_release = ''3.el8'', sha256 = ''c3'',
        pulp_href = ''/pkg/4''\<rparr>,
       \<lparr>pkg_name = ''M'', pkg_version = ''1.1'', pkg_release = ''2.module_el8.5.0+7'',
        sha256 = ''c5'', pulp_href = ''/pkg/6''\<rparr>]
      [\<lparr>pkg_name = ''B'', pkg_version = ''2.0'', pkg_release = ''3.el8'', sha256 = ''c4'',
        pulp_href = ''/pkg/5''\<rparr>]))
   \<and> ''/pkg/6'' \<notin> set (fst (reconcile
      \<lparr>copy_noarch_packages = True, only_check_noarch = False, show_differ_packages = False\<rparr>
      [\<lparr>pkg_name = ''A'', pkg_version = ''1.0'', pkg_release = ''1.el8'', sha256 = ''c1'',
        pulp_href = ''/pkg/1''\<rparr>,
       \<lparr>pkg_name = ''B'', pkg_version = ''2.0'', pkg_release = ''3.el8'', sha256 = ''c3'',
        pulp_href = ''/pkg/4''\<rparr>,
       \<lparr>pkg_name = ''M'', pkg_version = ''1.1'', pkg_release = ''2.module_el8.5.0+7'',
        sha256 = ''c5'', pulp_href = ''/pkg/6''\<rparr>]
      [\<lparr>pkg_name = ''B'', pkg_version = ''2.0'', pkg_release = ''3.el8'', sha256 = ''c4'',
        pulp_href = ''/pkg/5''\<rparr>]))"
proof -
  let ?flags = "\<lparr>copy_noarch_packages = True, only_check_noarch = False,
                  show_differ_packages = False\<rparr>"
  let ?A = "\<lparr>pkg_name = ''A'', pkg_version = ''1.0'', pkg_release = ''1.el8'', sha256 = ''c1'',
        pulp_href = ''/pkg/1''\<rparr>"
  let ?B = "\<lparr>pkg_name = ''B'', pkg_version = ''2.0'', pkg_release = ''3.el8'', sha256 = ''c3'',
        pulp_href = ''/pkg/4''\<rparr>"
  let ?M = "\<lparr>pkg_name = ''M'', pkg_version = ''1.1'', pkg_release = ''2.module_el8.5.0+7'',
        sha256 = ''c5'', pulp_href = ''/pkg/6''\<rparr>"
  let ?D = "\<lparr>pkg_name = ''B'', pkg_version = ''2.0'', pkg_release = ''3.el8'', sha256 = ''c4'',
        pulp_href = ''/pkg/5''\<rparr>"
  have a: "?A \<in> set [?A, ?B, ?M]" and b: "?B \<in> set [?A, ?B, ?M]" and m: "?M \<in> set [?A, ?B, ?M]"
    by simp_all
  have cb: "compared_pkg [?D] ?B = Some ?D" by (simp add: compared_pkg_def)
  show ?thesis
    using reconcile_correctness [OF a, of ?flags "[?D]"]
          reconcile_correctness [OF b, of ?flags "[?D]"]
          reconcile_correctness [OF m, of ?flags "[?D]"] cb
    by simp
qed

text \<open>
  Claim C4 as it is worded fails in two places. With the option that shows only
  differing packages, a package that is not modular and has no counterpart in the
  destination is not added. And when two destination packages have the name, version
  and release of a source package, only the first is compared: a second one with another
  checksum is neither removed nor replaced.
\<close>

theorem reconcile_correctness_counterexample:
  "compared_pkg []
     \<lparr>pkg_name = ''A'', pkg_version = ''1.0'', pkg_release = ''1.el8'', sha256 = ''c1'',
      pulp_href = ''/pkg/1''\<rparr> = None
   \<and> \<not> str_contains ''.module_el'' ''1.el8''
   \<and> reconcile \<lparr>copy_noarch_packages = True, only_check_noarch = False,
                 show_differ_packages = True\<rparr>
        [\<lparr>pkg_name = ''A'', pkg_version = ''1.0'', pkg_release = ''1.el8'', sha256 = ''c1'',
          pulp_href = ''/pkg/1''\<rparr>] [] = ([], [])
   \<and> reconcile \<lparr>copy_noarch_packages = True, only_check_noarch = False,
                 show_differ_packages = False\<rparr>
        [\<lparr>pkg_name = ''A'', pkg_version = ''1.0'', pkg_release = ''1.el8'', sha256 = ''c1'',
          pulp_href = ''/pkg/1''\<rparr>]
        [\<lparr>pkg_name = ''A'', pkg_version = ''1.0'', pkg_release = ''1.el8'', sha256 = ''c1'',
          pulp_href = ''/pkg/2''\<rparr>,
         \<lparr>pkg_name = ''A'', pkg_version = ''1.0'', pkg_release = ''1.el8'', sha256 = ''c2'',
          pulp_href = ''/pkg/3''\<rparr>] = ([], [])"
  by (simp add: reconcile_def compare_package_def compared_pkg_def)

text \<open>
  Claim C5: among the calls of one reconciliation there is at most one modification of
  content; it carries the whole list of additions together with the whole list of
  removals, it is made whenever there are additions outside the check-only mode, and
  in the check-only mode no modification is made.
\<close>

theorem modification_is_one_call:
  "let calls = copy_noarch_packages_from_x86_64_repo flags pulp src href;
       dst = fst (retrieve_all_packages_from_pulp pulp (latest_version pulp href));
       packages_to_add = fst (reconcile flags src dst);
       packages_to_remove = snd (reconcile flags src dst)
   in length (filter is_modify calls) \<le> 1
      \<and> (\<forall>c\<in>set calls. is_modify c \<longrightarrow>
             c = ModifyRepository href packages_to_add packages_to_remove)
      \<and> (packages_to_add \<noteq> [] \<and> \<not> only_check_noarch flags \<longrightarrow>
             ModifyRepository href packages_to_add packages_to_remove \<in> set calls)
      \<and> (only_check_noarch flags \<longrightarrow> filter is_modify calls = [])"
proof -
  have r: "\<forall>x\<in>set (snd (collect_pages (noarch_listing pulp (latest_version pulp href)))).
             \<not> is_modify x"
    using collect_pages_no_modify by blast
  then have "filter is_modify (snd (collect_pages (noarch_listing pulp (latest_version pulp href))))
               = []"
    by (simp add: filter_empty_conv)
  with r show ?thesis
    by (auto simp: copy_noarch_packages_from_x86_64_repo_def retrieve_all_packages_from_pulp_def
          Let_def split_beta)
qed

text \<open>
  One addition and one replacement give a single modification with both lists; the same
  input in check-only mode gives none.
\<close>

theorem modification_is_one_call_witness:
  "copy_noarch_packages_from_x86_64_repo
          \<lparr>copy_noarch_packages = True, only_check_noarch = False, show_differ_packages = False\<rparr>
          \<lparr>latest_version = (\<lambda>h. h @ ''versions/1/''),
           noarch_listing = (\<lambda>v. Response
             [\<lparr>pkg_name = ''B'', pkg_version = ''2.0'', pkg_release = ''3.el8'', sha256 = ''c4'',
               pulp_href = ''/pkg/5''\<rparr>] None)\<rparr>
          [\<lparr>pkg_name = ''A'', pkg_version = ''1.0'', pkg_release = ''1.el8'', sha256 = ''c1'',
            pulp_href = ''/pkg/1''\<rparr>,
           \<lparr>pkg_name = ''B'', pkg_version = ''2.0'', pkg_release = ''3.el8'', sha256 = ''c3'',
            pulp_href = ''/pkg/4''\<rparr>]
          ''/repo/ppc''
     = [GetRepoLatestVersion ''/repo/ppc'', RequestGet,
        ModifyRepository ''/repo/ppc'' [''/pkg/1'', ''/pkg/4''] [''/pkg/5''],
        CreateRpmPublication ''/repo/ppc'']
   \<and> is_modify (ModifyRepository ''/repo/ppc'' [''/pkg/1'', ''/pkg/4''] [''/pkg/5''])
   \<and> filter is_modify (copy_noarch_packages_from_x86_64_repo
          \<lparr>copy_noarch_packages = True, only_check_noarch = True, show_differ_packages = False\<rparr>
          \<lparr>latest_version = (\<lambda>h. h @ ''versions/1/''),
           noarch_listing = (\<lambda>v. Response
             [\<lparr>pkg_name = ''B'', pkg_version = ''2.0'', pkg_release = ''3.el8'', sha256 = ''c4'',
               pulp_href = ''/pkg/5''\<rparr>] None)\<rparr>
          [\<lparr>pkg_name = ''A'', pkg_version = ''1.0'', pkg_release = ''1.el8'', sha256 = ''c1'',
            pulp_href = ''/pkg/1''\<rparr>,
           \<lparr>pkg_name = ''B'', pkg_version = ''2.0'', pkg_release = ''3.el8'', sha256 = ''c3'',
            pulp_href = ''/pkg/4''\<rparr>]
          ''/repo/ppc'') = []"
  using modification_is_one_call
     [of "\<lparr>copy_noarch_packages = True, only_check_noarch = False, show_differ_packages = False\<rparr>"
         "\<lparr>latest_version = (\<lambda>h. h @ ''versions/1/''),
           noarch_listing = (\<lambda>v. Response
             [\<lparr>pkg_name = ''B'', pkg_version = ''2.0'', pkg_release = ''3.el8'', sha256 = ''c4'',
               pulp_href = ''/pkg/5''\<rparr>] None)\<rparr>"
         "[\<lparr>pkg_name = ''A'', pkg_version = ''1.0'', pkg_release = ''1.el8'', sha256 = ''c1'',
            pulp_href = ''/pkg/1''\<rparr>,
           \<lparr>pkg_name = ''B'', pkg_version = ''2.0'', pkg_release = ''3.el8'', sha256 = ''c3'',
            pulp_href = ''/pkg/4''\<rparr>]"
         "''/repo/ppc''"]
    modification_is_one_call
     [of "\<lparr>copy_noarch_packages = True, only_check_noarch = True, show_differ_packages = False\<rparr>"
         "\<lparr>latest_version = (\<lambda>h. h @ ''versions/1/''),
           noarch_listing = (\<lambda>v. Response
             [\<lparr>pkg_name = ''B'', pkg_version = ''2.0'', pkg_release = ''3.el8'', sha256 = ''c4'',
               pulp_href = ''/pkg/5''\<rparr>] None)\<rparr>"
         "[\<lparr>pkg_name = ''A'', pkg_version = ''1.0'', pkg_release = ''1.el8'', sha256 = ''c1'',
            pulp_href = ''/pkg/1''\<rparr>,
           \<lparr>pkg_name = ''B'', pkg_version = ''2.0'', pkg_release = ''3.el8'', sha256 = ''c3'',
            pulp_href = ''/pkg/4''\<rparr>]"
         "''/repo/ppc''"]
  by (simp add: reconcile_def compare_package_def compared_pkg_def
        copy_noarch_packages_from_x86_64_repo_def retrieve_all_packages_from_pulp_def)

text \<open>
  Claim C10: when the list of removals is not empty, neither is the list of additions
  (there are never more removals than additions), and every modification sent to the
  content service carries at least one addition.
\<close>

theorem removal_only_with_addition:
  "(snd (reconcile flags src dst) \<noteq> [] \<longrightarrow> fst (reconcile flags src dst) \<noteq> [])
   \<and> length (snd (reconcile flags src dst)) \<le> length (fst (reconcile flags src dst))
   \<and> (\<forall>h a r. ModifyRepository h a r
                  \<in> set (copy_noarch_packages_from_x86_64_repo flags pulp src href)
              \<longrightarrow> a \<noteq> [])"
proof (intro conjI allI impI)
  show l: "length (snd (reconcile flags src dst)) \<le> length (fst (reconcile flags src dst))"
    by (rule reconcile_lengths)
  assume "snd (reconcile flags src dst) \<noteq> []"
  with l show "fst (reconcile flags src dst) \<noteq> []" by auto
next
  fix h a r
  assume "ModifyRepository h a r \<in> set (copy_noarch_packages_from_x86_64_repo flags pulp src href)"
  then show "a \<noteq> []"
    using collect_pages_no_modify [of "ModifyRepository h a r"]
    by (auto simp: copy_noarch_packages_from_x86_64_repo_def retrieve_all_packages_from_pulp_def
             split_beta split: if_splits)
qed

text \<open>A replacement: one removal, one addition, sent in one modification.\<close>

theorem removal_only_with_addition_witness:
  "snd (reconcile
      \<lparr>copy_noarch_packages = True, only_check_noarch = False, show_differ_packages = False\<rparr>
      [\<lparr>pkg_name = ''B'', pkg_version = ''2.0'', pkg_release = ''3.el8'', sha256 = ''c3'',
        pulp_href = ''/pkg/4''\<rparr>]
      [\<lparr>pkg_name = ''B'', pkg_version = ''2.0'', pkg_release = ''3.el8'', sha256 = ''c4'',
        pulp_href = ''/pkg/5''\<rparr>]) = [''/pkg/5'']
   \<and> fst (reconcile
      \<lparr>copy_noarch_packages = True, only_check_noarch = False, show_differ_packages = False\<rparr>
      [\<lparr>pkg_name = ''B'', pkg_version = ''2.0'', pkg_release = ''3.el8'', sha256 = ''c3'',
        pulp_href = ''/pkg/4''\<rparr>]
      [\<lparr>pkg_name = ''B'', pkg_version = ''2.0'', pkg_release = ''3.el8'', sha256 = ''c4'',
        pulp_href = ''/pkg/5''\<rparr>]) \<noteq> []
   \<and> ModifyRepository ''/repo/ppc'' [''/pkg/4''] [''/pkg/5'']
       \<in> set (copy_noarch_packages_from_x86_64_repo
          \<lparr>copy_noarch_packages = True, only_check_noarch = False, show_differ_packages = False\<rparr>
          \<lparr>latest_version = (\<lambda>h. h @ ''versions/1/''),
           noarch_listing = (\<lambda>v. Response
             [\<lparr>pkg_name = ''B'', pkg_version = ''2.0'', pkg_release = ''3.el8'', sha256 = ''c4'',
               pulp_href = ''/pkg/5''\<rparr>] None)\<rparr>
          [\<lparr>pkg_name = ''B'', pkg_version = ''2.0'', pkg_release = ''3.el8'', sha256 = ''c3'',
            pulp_href = ''/pkg/4''\<rparr>]
          ''/repo/ppc'')"
  using removal_only_with_addition
     [of "\<lparr>copy_noarch_packages = True, only_check_noarch = False, show_differ_packages = False\<rparr>"
         "[\<lparr>pkg_name = ''B'', pkg_version = ''2.0'', pkg_release = ''3.el8'', sha256 = ''c3'',
            pulp_href = ''/pkg/4''\<rparr>]"
         "[\<lparr>pkg_name = ''B'', pkg_version = ''2.0'', pkg_release = ''3.el8'', sha256 = ''c4'',
            pulp_href = ''/pkg/5''\<rparr>]"
         "\<lparr>latest_version = (\<lambda>h. h @ ''versions/1/''),
           noarch_listing = (\<lambda>v. Response
             [\<lparr>pkg_name = ''B'', pkg_version = ''2.0'', pkg_release = ''3.el8'', sha256 = ''c4'',
               pulp_href = ''/pkg/5''\<rparr>] None)\<rparr>"
         "''/repo/ppc''"]
  by (simp add: reconcile_def compare_package_def compared_pkg_def
        copy_noarch_packages_from_x86_64_repo_def retrieve_all_packages_from_pulp_def)

section \<open>Properties of the signature verification\<close>

lemma lower_char_not_dot: "lower_char c = CHR ''.'' \<Longrightarrow> c = CHR ''.''"
  by (simp add: lower_char_def split: if_splits)

lemma lower_char_not_blank: "lower_char c = CHR '' '' \<Longrightarrow> c = CHR '' ''"
  by (simp add: lower_char_def split: if_splits)

lemma key_char_plain: "key_char c \<Longrightarrow> lower_char c \<noteq> CHR ''.'' \<and> lower_char c \<noteq> CHR '' ''"
  using lower_char_not_dot [of c] lower_char_not_blank [of c]
  by (auto simp: key_char_def is_word_def)

lemma closing_chars: "c \<in> set (closing s) \<Longrightarrow> key_char c"
  by (auto simp: closing_def key_char_def split: list.splits if_splits)

lemma word_run_chars: "word_run s = Some k \<Longrightarrow> c \<in> set k \<Longrightarrow> key_char c"
  by (auto simp: word_run_def Let_def key_char_def split: if_splits
           dest: set_takeWhileD closing_chars [unfolded key_char_def])

lemma key_id_group_chars: "key_id_group s = Some k \<Longrightarrow> c \<in> set k \<Longrightarrow> key_char c"
proof (cases s)
  case Nil
  then show "key_id_group s = Some k \<Longrightarrow> c \<in> set k \<Longrightarrow> key_char c"
    by (simp add: key_id_group_def)
next
  case (Cons a t)
  assume k: "key_id_group s = Some k" and c: "c \<in> set k"
  show "key_char c"
  proof (cases "a = CHR ''(''")
    case True
    with k Cons obtain w where w: "word_run t = Some w" "k = a # w"
      by (auto simp: key_id_group_def split: option.splits)
    with c True word_run_chars [OF w(1)] show ?thesis by (auto simp: key_char_def)
  next
    case False
    with k Cons have "word_run s = Some k" by (simp add: key_id_group_def)
    then show ?thesis using c by (rule word_run_chars)
  qed
qed

lemma key_label_chars: "key_label s = Some k \<Longrightarrow> c \<in> set k \<Longrightarrow> key_char c"
  by (induction s) (auto simp: key_label_here_def split: if_splits option.splits
                         dest: key_id_group_chars)

lemma after_separator_chars: "after_separator s = Some k \<Longrightarrow> c \<in> set k \<Longrightarrow> key_char c"
  by (auto simp: after_separator_def split: option.splits
           dest: key_id_group_chars key_label_chars)

lemma separator_run_chars: "separator_run s = Some k \<Longrightarrow> c \<in> set k \<Longrightarrow> key_char c"
  by (induction s) (auto split: if_splits option.splits dest: after_separator_chars)

lemma signature_regex_search_chars:
  "signature_regex_search s = Some k \<Longrightarrow> c \<in> set k \<Longrightarrow> key_char c"
  by (induction s) (auto simp: match_here_def split: if_splits option.splits
                         dest: separator_run_chars)

lemma key_id_plain:
  "signature_regex_search s = Some k \<Longrightarrow> c \<in> set (lower k)
     \<Longrightarrow> c \<noteq> CHR ''.'' \<and> c \<noteq> CHR '' ''"
  using signature_regex_search_chars key_char_plain by (auto simp: lower_def)

lemma not_rpm_suffix:
  assumes "\<forall>c\<in>set k. c \<noteq> CHR ''.'' \<and> c \<noteq> CHR '' ''"
  shows "\<not> endswith (p @ '' '' @ k) ''.rpm''"
proof -
  have "\<not> startswith (r @ CHR '' '' # t) ''mpr.''" if "\<forall>c\<in>set r. c \<noteq> CHR ''.''" for r t
  proof (cases r)
    case Nil then show ?thesis by simp
  next
    case (Cons a r1)
    show ?thesis
    proof (cases r1)
      case Nil with Cons show ?thesis by simp
    next
      case (Cons b r2)
      note c2 = this
      show ?thesis
      proof (cases r2)
        case Nil with c2 \<open>r = a # r1\<close> show ?thesis by simp
      next
        case (Cons d r3)
        with c2 \<open>r = a # r1\<close> that show ?thesis by (cases r3) auto
      qed
    qed
  qed
  from this [of "rev k" "rev p"] assms show ?thesis by (simp add: endswith_def)
qed

lemma takeWhile_until:
  "\<forall>x\<in>set xs. P x \<Longrightarrow> \<not> P y \<Longrightarrow> takeWhile P (xs @ y # ys) = xs"
  by (induction xs) auto

lemma split_at_last_blank:
  assumes "a @ '' '' @ k = b @ '' '' @ k'"
    and "\<forall>c\<in>set k. c \<noteq> CHR '' ''" and "\<forall>c\<in>set k'. c \<noteq> CHR '' ''"
  shows "a = b \<and> k = k'"
proof -
  from assms(1) have "rev (a @ '' '' @ k) = rev (b @ '' '' @ k')" by simp
  then have e: "rev k @ CHR '' '' # rev a = rev k' @ CHR '' '' # rev b" by simp
  have "takeWhile (\<lambda>c. c \<noteq> CHR '' '') (rev k @ CHR '' '' # rev a) = rev k"
    using assms(2) by (intro takeWhile_until) auto
  moreover have "takeWhile (\<lambda>c. c \<noteq> CHR '' '') (rev k' @ CHR '' '' # rev b) = rev k'"
    using assms(3) by (intro takeWhile_until) auto
  ultimately have "rev k = rev k'" using e by simp
  with e show ?thesis by simp
qed

lemma check_package_same_path:
  "path_join rp f = path_join rp g \<Longrightarrow>
     check_package h K S rp f st = check_package h K S rp g st"
  by (simp add: check_package_def)

lemma check_package_sets:
  "set (errored_packages (check_package h K S rp f st)) =
     set (errored_packages st) \<union> set (errored_packages (check_package h K S rp f no_violations))"
  "set (no_signature_packages (check_package h K S rp f st)) =
     set (no_signature_packages st)
     \<union> set (no_signature_packages (check_package h K S rp f no_violations))"
  "set (wrong_signature_packages (check_package h K S rp f st)) =
     set (wrong_signature_packages st)
     \<union> set (wrong_signature_packages (check_package h K S rp f no_violations))"
  by (auto simp: check_package_def set_add_def no_violations_def Let_def
           split: prod.splits option.splits if_splits)

lemma check_packages_sets:
  "set (errored_packages (check_packages h K S rp fs st)) =
     set (errored_packages st)
     \<union> (\<Union>f\<in>set fs. set (errored_packages (check_package h K S rp f no_violations)))"
  "set (no_signature_packages (check_packages h K S rp fs st)) =
     set (no_signature_packages st)
     \<union> (\<Union>f\<in>set fs. set (no_signature_packages (check_package h K S rp f no_violations)))"
  "set (wrong_signature_packages (check_packages h K S rp fs st)) =
     set (wrong_signature_packages st)
     \<union> (\<Union>f\<in>set fs. set (wrong_signature_packages (check_package h K S rp f no_violations)))"
proof (induction fs arbitrary: st)
  case Nil
  {
    case 1 show ?case by simp
  next
    case 2 show ?case by simp
  next
    case 3 show ?case by simp
  }
next
  case (Cons f fs)
  {
    case 1
    show ?case
      using Cons.IH(1) [of "check_package h K S rp f st"] check_package_sets(1) [of h K S rp f st]
      by auto
  next
    case 2
    show ?case
      using Cons.IH(2) [of "check_package h K S rp f st"] check_package_sets(2) [of h K S rp f st]
      by auto
  next
    case 3
    show ?case
      using Cons.IH(3) [of "check_package h K S rp f st"] check_package_sets(3) [of h K S rp f st]
      by auto
  }
qed

lemma one_entry:
  "length (errored_packages (check_package h K S rp f no_violations))
   + length (no_signature_packages (check_package h K S rp f no_violations))
   + length (wrong_signature_packages (check_package h K S rp f no_violations)) \<le> 1"
  by (auto simp: check_package_def set_add_def no_violations_def Let_def
           split: prod.splits option.splits if_splits)

lemma errored_entry:
  "x \<in> set (errored_packages (check_package h K S rp f no_violations))
     \<Longrightarrow> x = path_join rp f \<and> endswith x ''.rpm''"
  by (auto simp: check_package_def set_add_def no_violations_def Let_def
           split: prod.splits option.splits if_splits)

lemma no_signature_entry:
  "x \<in> set (no_signature_packages (check_package h K S rp f no_violations))
     \<Longrightarrow> x = path_join rp f \<and> endswith x ''.rpm''"
  by (auto simp: check_package_def set_add_def no_violations_def Let_def
           split: prod.splits option.splits if_splits)

lemma wrong_entry:
  "x \<in> set (wrong_signature_packages (check_package h K S rp f no_violations))
     \<Longrightarrow> \<exists>k. x = path_join rp f @ '' '' @ k \<and> (\<forall>c\<in>set k. c \<noteq> CHR ''.'' \<and> c \<noteq> CHR '' '')"
  by (auto simp: check_package_def set_add_def no_violations_def Let_def
           split: prod.splits option.splits if_splits dest: key_id_plain)

lemma wrong_entry_not_rpm:
  "x \<in> set (wrong_signature_packages (check_package h K S rp f no_violations))
     \<Longrightarrow> \<not> endswith x ''.rpm''"
  using wrong_entry [of x h K S rp f] not_rpm_suffix by auto

lemma scan_directory_sets:
  "set (errored_packages (scan_directory h S rp keys)) =
     (\<Union>f\<in>set (listdir h rp). set (errored_packages
        (check_package h (map (\<lambda>i. lower (keyid i)) keys) S rp f no_violations)))"
  "set (no_signature_packages (scan_directory h S rp keys)) =
     (\<Union>f\<in>set (listdir h rp). set (no_signature_packages
        (check_package h (map (\<lambda>i. lower (keyid i)) keys) S rp f no_violations)))"
  "set (wrong_signature_packages (scan_directory h S rp keys)) =
     (\<Union>f\<in>set (listdir h rp). set (wrong_signature_packages
        (check_package h (map (\<lambda>i. lower (keyid i)) keys) S rp f no_violations)))"
  by (simp_all add: scan_directory_def check_packages_sets no_violations_def)

lemma errored_not_unsigned:
  assumes "x \<in> set (errored_packages (check_package h K S rp f no_violations))"
    and "x \<in> set (no_signature_packages (check_package h K S rp g no_violations))"
  shows False
proof -
  from assms errored_entry no_signature_entry have "path_join rp f = path_join rp g" by metis
  then have "check_package h K S rp f no_violations = check_package h K S rp g no_violations"
    by (rule check_package_same_path)
  with assms have "errored_packages (check_package h K S rp g no_violations) \<noteq> []"
    and "no_signature_packages (check_package h K S rp g no_violations) \<noteq> []" by auto
  then have "length (errored_packages (check_package h K S rp g no_violations)) \<ge> 1"
    and "length (no_signature_packages (check_package h K S rp g no_violations)) \<ge> 1"
    by (simp_all add: Suc_le_eq)
  with one_entry [of h K S rp g] show False by simp
qed

lemma check_package_with_key:
  assumes "endswith (path_join rp package) ''.rpm''"
    and "rpm_qip h (path_join rp package) = (0, out, err)"
    and "signature_line out = Some line"
    and "signature_regex_search line = Some key_id"
  shows "check_package h K S rp package no_violations =
     (if str_contains ''none'' (lower key_id)
      then no_violations\<lparr>no_signature_packages := [path_join rp package]\<rparr>
      else if lower key_id \<notin> set K
      then no_violations\<lparr>wrong_signature_packages :=
             [path_join rp package @ '' '' @ lower key_id]\<rparr>
      else no_violations)"
  using assms by (simp add: check_package_def set_add_def no_violations_def Let_def)

lemma check_rpms_signature_appends:
  "\<exists>added. check_rpms_signature h S rp keys (Some content) = Some (content @ added)"
  by (simp add: check_rpms_signature_def Let_def)

lemma verify_paths_appends:
  "\<exists>added. verify_paths h S paths (Some content) = Some (content @ added)"
proof (induction paths arbitrary: content)
  case Nil
  then show ?case by simp
next
  case (Cons p paths)
  obtain rp keys where p: "p = (rp, keys)" by (cases p)
  obtain a where a: "check_rpms_signature h S rp keys (Some content) = Some (content @ a)"
    using check_rpms_signature_appends by blast
  obtain b where "verify_paths h S paths (Some (content @ a)) = Some ((content @ a) @ b)"
    using Cons.IH by blast
  with p a show ?case by simp
qed

text \<open>
  Claim C7: the three sets of the report never share an entry; each set holds exactly
  what the files of the directory contribute one by one, so every file of the listing is
  evaluated wherever it stands; and one file contributes at most one entry in all. A
  file therefore ends in exactly one of four ways: no entry, an entry among the packages
  that could not be inspected, an entry among the unsigned ones, or an entry among those
  signed with a wrong key.
\<close>

theorem classification_complete:
  "let v = scan_directory h known_subkeys repository_path sign_keys;
       alone = (\<lambda>package. check_package h (map (\<lambda>i. lower (keyid i)) sign_keys) known_subkeys
                            repository_path package no_violations)
   in set (errored_packages v) \<inter> set (no_signature_packages v) = {}
      \<and> set (errored_packages v) \<inter> set (wrong_signature_packages v) = {}
      \<and> set (no_signature_packages v) \<inter> set (wrong_signature_packages v) = {}
      \<and> set (errored_packages v)
          = (\<Union>package\<in>set (listdir h repository_path). set (errored_packages (alone package)))
      \<and> set (no_signature_packages v)
          = (\<Union>package\<in>set (listdir h repository_path).
               set (no_signature_packages (alone package)))
      \<and> set (wrong_signature_packages v)
          = (\<Union>package\<in>set (listdir h repository_path).
               set (wrong_signature_packages (alone package)))
      \<and> (\<forall>package\<in>set (listdir h repository_path).
            length (errored_packages (alone package))
            + length (no_signature_packages (alone package))
            + length (wrong_signature_packages (alone package)) \<le> 1)"
proof -
  let ?K = "map (\<lambda>i. lower (keyid i)) sign_keys"
  have a: "set (errored_packages (scan_directory h known_subkeys repository_path sign_keys))
           \<inter> set (no_signature_packages (scan_directory h known_subkeys repository_path sign_keys))
           = {}"
    unfolding scan_directory_sets using errored_not_unsigned by blast
  have b: "set (errored_packages (scan_directory h known_subkeys repository_path sign_keys))
           \<inter> set (wrong_signature_packages (scan_directory h known_subkeys repository_path sign_keys))
           = {}"
    unfolding scan_directory_sets using errored_entry wrong_entry_not_rpm by blast
  have c: "set (no_signature_packages (scan_directory h known_subkeys repository_path sign_keys))
           \<inter> set (wrong_signature_packages (scan_directory h known_subkeys repository_path sign_keys))
           = {}"
    unfolding scan_directory_sets using no_signature_entry wrong_entry_not_rpm by blast
  show ?thesis
    unfolding Let_def
    using a b c scan_directory_sets [of h known_subkeys repository_path sign_keys]
      one_entry [of h ?K known_subkeys repository_path]
    by simp
qed

text \<open>
  A directory with one file of each kind: an inspection that fails, an unsigned package,
  a file that is no package, a package signed with an unknown key and one signed with
  the key of the platform.
\<close>

theorem classification_complete_witness:
  "''a.rpm'' \<in> set (listdir
       \<lparr>listdir = (\<lambda>d. [''a.rpm'', ''d.rpm'', ''notes.txt'', ''f.rpm'', ''e.rpm'']),
        rpm_qip = (\<lambda>p. if p = ''/srv/repo/a.rpm'' then (1, [], ''error: open failed'')
                        else if p = ''/srv/repo/d.rpm'' then (0, ''Signature   : (none)'', [])
                        else if p = ''/srv/repo/e.rpm''
                        then (0, ''Signature   : RSA/SHA256, Key ID ABCDEF12'', [])
                        else (0, ''Signature   : RSA/SHA256, Key ID 12345678'', []))\<rparr>
       ''/srv/repo'')
   \<and> scan_directory
       \<lparr>listdir = (\<lambda>d. [''a.rpm'', ''d.rpm'', ''notes.txt'', ''f.rpm'', ''e.rpm'']),
        rpm_qip = (\<lambda>p. if p = ''/srv/repo/a.rpm'' then (1, [], ''error: open failed'')
                        else if p = ''/srv/repo/d.rpm'' then (0, ''Signature   : (none)'', [])
                        else if p = ''/srv/repo/e.rpm''
                        then (0, ''Signature   : RSA/SHA256, Key ID ABCDEF12'', [])
                        else (0, ''Signature   : RSA/SHA256, Key ID 12345678'', []))\<rparr>
       [] ''/srv/repo'' [\<lparr>keyid = ''ABCDEF12'', key_platform_id = 1\<rparr>]
     = \<lparr>errored_packages = [''/srv/repo/a.rpm''],
        no_signature_packages = [''/srv/repo/d.rpm''],
        wrong_signature_packages = [''/srv/repo/f.rpm 12345678'']\<rparr>
   \<and> set [''/srv/repo/a.rpm''] \<inter> set [''/srv/repo/d.rpm''] = {}
   \<and> set [''/srv/repo/a.rpm''] \<inter> set [''/srv/repo/f.rpm 12345678''] = {}
   \<and> set [''/srv/repo/d.rpm''] \<inter> set [''/srv/repo/f.rpm 12345678''] = {}"
proof -
  let ?h = "\<lparr>listdir = (\<lambda>d. [''a.rpm'', ''d.rpm'', ''notes.txt'', ''f.rpm'', ''e.rpm'']),
        rpm_qip = (\<lambda>p. if p = ''/srv/repo/a.rpm'' then (1, [], ''error: open failed'')
                        else if p = ''/srv/repo/d.rpm'' then (0, ''Signature   : (none)'', [])
                        else if p = ''/srv/repo/e.rpm''
                        then (0, ''Signature   : RSA/SHA256, Key ID ABCDEF12'', [])
                        else (0, ''Signature   : RSA/SHA256, Key ID 12345678'', []))\<rparr>"
  have s: "scan_directory ?h [] ''/srv/repo'' [\<lparr>keyid = ''ABCDEF12'', key_platform_id = 1\<rparr>]
     = \<lparr>errored_packages = [''/srv/repo/a.rpm''],
        no_signature_packages = [''/srv/repo/d.rpm''],
        wrong_signature_packages = [''/srv/repo/f.rpm 12345678'']\<rparr>"
    by code_simp
  note t = classification_complete
      [of ?h "[]" "''/srv/repo''" "[\<lparr>keyid = ''ABCDEF12'', key_platform_id = 1\<rparr>]",
       unfolded Let_def s]
  note d1 = t [THEN conjunct1]
  note d2 = t [THEN conjunct2, THEN conjunct1]
  note d3 = t [THEN conjunct2, THEN conjunct2, THEN conjunct1]
  have l: "''a.rpm'' \<in> set (listdir ?h ''/srv/repo'')" by simp
  from l s d1 d2 d3 show ?thesis by simp
qed

text \<open>
  Claim C6, as the code has it: a package whose inspection yields a key id is recorded
  as unsigned exactly when the lower-cased key id contains \<^verbatim>\<open>none\<close>, and then its
  entry is not among the packages signed with a wrong key.
\<close>

theorem unsigned_iff_key_contains_none:
  assumes "package \<in> set (listdir h repository_path)"
    and "endswith (path_join repository_path package) ''.rpm''"
    and "rpm_qip h (path_join repository_path package) = (0, out, err)"
    and "signature_line out = Some line"
    and "signature_regex_search line = Some key_id"
  shows "(path_join repository_path package
            \<in> set (no_signature_packages
                     (scan_directory h known_subkeys repository_path sign_keys)))
          = str_contains ''none'' (lower key_id)
       \<and> (str_contains ''none'' (lower key_id) \<longrightarrow>
            path_join repository_path package @ '' '' @ lower key_id
              \<notin> set (wrong_signature_packages
                       (scan_directory h known_subkeys repository_path sign_keys)))"
proof -
  let ?K = "map (\<lambda>i. lower (keyid i)) sign_keys"
  let ?alone = "\<lambda>f. check_package h ?K known_subkeys repository_path f no_violations"
  let ?p = "path_join repository_path package"
  note own = check_package_with_key [OF assms(2-5), of ?K known_subkeys]
  have same: "?alone g = ?alone package" if "path_join repository_path g = ?p" for g
    using that by (rule check_package_same_path)
  have "?p \<in> set (no_signature_packages (scan_directory h known_subkeys repository_path sign_keys))
          = str_contains ''none'' (lower key_id)"
  proof
    assume "?p \<in> set (no_signature_packages
                        (scan_directory h known_subkeys repository_path sign_keys))"
    then obtain g where g: "?p \<in> set (no_signature_packages (?alone g))"
      unfolding scan_directory_sets by blast
    from no_signature_entry [OF g] have "path_join repository_path g = ?p" by simp
    from g same [OF this] have "?p \<in> set (no_signature_packages (?alone package))" by simp
    then show "str_contains ''none'' (lower key_id)"
      unfolding own by (simp add: no_violations_def split: if_splits)
  next
    assume "str_contains ''none'' (lower key_id)"
    then have "?p \<in> set (no_signature_packages (?alone package))"
      by (simp add: own)
    with assms(1) show "?p \<in> set (no_signature_packages
                        (scan_directory h known_subkeys repository_path sign_keys))"
      unfolding scan_directory_sets by blast
  qed
  moreover have "?p @ '' '' @ lower key_id
              \<notin> set (wrong_signature_packages
                       (scan_directory h known_subkeys repository_path sign_keys))"
    if n: "str_contains ''none'' (lower key_id)"
  proof
    assume "?p @ '' '' @ lower key_id
              \<in> set (wrong_signature_packages
                       (scan_directory h known_subkeys repository_path sign_keys))"
    then obtain g where g: "?p @ '' '' @ lower key_id \<in> set (wrong_signature_packages (?alone g))"
      unfolding scan_directory_sets by blast
    from wrong_entry [OF g] obtain k where
      k: "?p @ '' '' @ lower key_id = path_join repository_path g @ '' '' @ k"
         "\<forall>c\<in>set k. c \<noteq> CHR ''.'' \<and> c \<noteq> CHR '' ''" by blast
    have "\<forall>c\<in>set (lower key_id). c \<noteq> CHR '' ''"
      using key_id_plain [OF assms(5)] by blast
    with k(2) split_at_last_blank [OF k(1)] have "path_join repository_path g = ?p" by simp
    from g same [OF this]
    have "?p @ '' '' @ lower key_id \<in> set (wrong_signature_packages (?alone package))"
      by simp
    with n show False unfolding own by (simp add: no_violations_def)
  qed
  ultimately show ?thesis by blast
qed

text \<open>The line that \<^verbatim>\<open>rpm\<close> prints for an unsigned package.\<close>

theorem unsigned_iff_key_contains_none_witness:
  "''d.rpm'' \<in> set (listdir \<lparr>listdir = (\<lambda>d. [''d.rpm'']),
         rpm_qip = (\<lambda>p. (0, ''Signature   : (none)'', []))\<rparr> ''/srv/repo'')
   \<and> endswith (path_join ''/srv/repo'' ''d.rpm'') ''.rpm''
   \<and> signature_line ''Signature   : (none)'' = Some ''Signature   : (none)''
   \<and> signature_regex_search ''Signature   : (none)'' = Some ''(none)''
   \<and> str_contains ''none'' (lower ''(none)'')
   \<and> path_join ''/srv/repo'' ''d.rpm''
       \<in> set (no_signature_packages (scan_directory
            \<lparr>listdir = (\<lambda>d. [''d.rpm'']),
             rpm_qip = (\<lambda>p. (0, ''Signature   : (none)'', []))\<rparr>
            [] ''/srv/repo'' [\<lparr>keyid = ''ABCDEF12'', key_platform_id = 1\<rparr>]))
   \<and> path_join ''/srv/repo'' ''d.rpm'' @ '' '' @ lower ''(none)''
       \<notin> set (wrong_signature_packages (scan_directory
            \<lparr>listdir = (\<lambda>d. [''d.rpm'']),
             rpm_qip = (\<lambda>p. (0, ''Signature   : (none)'', []))\<rparr>
            [] ''/srv/repo'' [\<lparr>keyid = ''ABCDEF12'', key_platform_id = 1\<rparr>]))"
proof -
  let ?h = "\<lparr>listdir = (\<lambda>d. [''d.rpm'']),
             rpm_qip = (\<lambda>p. (0::int, ''Signature   : (none)'', []))\<rparr>"
  have 1: "''d.rpm'' \<in> set (listdir ?h ''/srv/repo'')" by simp
  have 2: "endswith (path_join ''/srv/repo'' ''d.rpm'') ''.rpm''" by code_simp
  have 3: "rpm_qip ?h (path_join ''/srv/repo'' ''d.rpm'') = (0, ''Signature   : (none)'', [])"
    by simp
  have 4: "signature_line ''Signature   : (none)'' = Some ''Signature   : (none)''"
    by code_simp
  have 5: "signature_regex_search ''Signature   : (none)'' = Some ''(none)''" by code_simp
  have 6: "str_contains ''none'' (lower ''(none)'')" by code_simp
  from unsigned_iff_key_contains_none [OF 1 2 3 4 5, of "[]"
         "[\<lparr>keyid = ''ABCDEF12'', key_platform_id = 1\<rparr>]"] 1 2 4 5 6
  show ?thesis by blast
qed

text \<open>
  Claim C6 as it is worded fails on the line printed for an unsigned package: the key id
  taken from it is \<^verbatim>\<open>(none)\<close> with its parentheses, which is not equal to
  \<^verbatim>\<open>none\<close>, and the package is recorded as unsigned.
\<close>

theorem unsigned_counterexample:
  "signature_regex_search ''Signature   : (none)'' = Some ''(none)''
   \<and> lower ''(none)'' \<noteq> ''none''
   \<and> no_signature_packages (scan_directory
        \<lparr>listdir = (\<lambda>d. [''d.rpm'']),
         rpm_qip = (\<lambda>p. (0, ''Signature   : (none)'', []))\<rparr>
        [] ''/srv/repo'' [\<lparr>keyid = ''ABCDEF12'', key_platform_id = 1\<rparr>])
      = [''/srv/repo/d.rpm'']"
  by code_simp

text \<open>
  Claim C1 says that a package signed with a known subkey of an authorized key is
  accepted. The scan finds the subkey and still records the package among those signed
  with a wrong key.
\<close>

theorem subkey_signed_recorded_as_wrong:
  "signed_with_subkey [(''abcdef12'', [''12345678''])] ''12345678''
   \<and> ''abcdef12'' \<in> set (map (\<lambda>i. lower (keyid i)) [\<lparr>keyid = ''ABCDEF12'', key_platform_id = 1\<rparr>])
   \<and> scan_directory
        \<lparr>listdir = (\<lambda>d. [''f.rpm'']),
         rpm_qip = (\<lambda>p. (0, ''Signature   : RSA/SHA256, Key ID 12345678'', []))\<rparr>
        [(''abcdef12'', [''12345678''])] ''/srv/repo''
        [\<lparr>keyid = ''ABCDEF12'', key_platform_id = 1\<rparr>]
      = \<lparr>errored_packages = [], no_signature_packages = [],
         wrong_signature_packages = [''/srv/repo/f.rpm 12345678'']\<rparr>"
  by code_simp

text \<open>
  Claim C2 says that a package whose inspection prints no signature line is recorded
  among the packages that could not be inspected. The scan records nothing for it.
\<close>

theorem missing_signature_line_not_recorded:
  "signature_line (''Name        : b'' @ [CHR 0x0A] @ ''Version     : 1.0'') = None
   \<and> scan_directory
        \<lparr>listdir = (\<lambda>d. [''b.rpm'']),
         rpm_qip = (\<lambda>p. (0, ''Name        : b'' @ [CHR 0x0A] @ ''Version     : 1.0'', []))\<rparr>
        [] ''/srv/repo'' [\<lparr>keyid = ''ABCDEF12'', key_platform_id = 1\<rparr>]
      = \<lparr>errored_packages = [], no_signature_packages = [], wrong_signature_packages = []\<rparr>"
  by code_simp

text \<open>
  Claim C3, as the code has it: building the exporter removes the error file, so a run
  starts from no file whatever the file held before; within a run the verifications
  only write at the end of the file, and a verification with a report that is not empty
  writes exactly the lines of that report after the content it finds.
\<close>

theorem error_log_accumulates_within_run:
  "exporter_init export_error_file = None
   \<and> export_run h known_subkeys paths export_error_file = verify_paths h known_subkeys paths None
   \<and> (\<exists>added. verify_paths h known_subkeys paths (Some content) = Some (content @ added))
   \<and> (let v = scan_directory h known_subkeys repository_path sign_keys in
        errored_packages v \<noteq> [] \<or> no_signature_packages v \<noteq> []
          \<or> wrong_signature_packages v \<noteq> [] \<longrightarrow>
        check_rpms_signature h known_subkeys repository_path sign_keys (Some content)
          = Some (content @ join_lines (report_lines v))
        \<and> check_rpms_signature h known_subkeys repository_path sign_keys None
          = Some (join_lines (report_lines v)))"
proof -
  have i: "exporter_init export_error_file = None"
    by (simp add: exporter_init_def split: option.splits)
  then have "export_run h known_subkeys paths export_error_file
               = verify_paths h known_subkeys paths None"
    by (simp add: export_run_def)
  with i verify_paths_appends [of h known_subkeys paths content] show ?thesis
    by (simp add: check_rpms_signature_def Let_def)
qed

text \<open>A failed inspection is written after the content already in the file.\<close>

theorem error_log_accumulates_within_run_witness:
  "errored_packages (scan_directory
      \<lparr>listdir = (\<lambda>d. [''a.rpm'']), rpm_qip = (\<lambda>p. (1, [], ''error: open failed''))\<rparr>
      [] ''/srv/r1'' []) = [''/srv/r1/a.rpm'']
   \<and> check_rpms_signature
      \<lparr>listdir = (\<lambda>d. [''a.rpm'']), rpm_qip = (\<lambda>p. (1, [], ''error: open failed''))\<rparr>
      [] ''/srv/r1'' [] (Some ''earlier'')
     = Some (''earlier'' @ join_lines
         [''Packages that we cannot get information about:'', ''/srv/r1/a.rpm''])"
proof -
  have s: "scan_directory
      \<lparr>listdir = (\<lambda>d. [''a.rpm'']), rpm_qip = (\<lambda>p. (1, [], ''error: open failed''))\<rparr>
      [] ''/srv/r1'' [] =
      \<lparr>errored_packages = [''/srv/r1/a.rpm''], no_signature_packages = [],
       wrong_signature_packages = []\<rparr>"
    by (simp add: scan_directory_def check_package_def path_join_def endswith_def set_add_def
          no_violations_def)
  show ?thesis
    using error_log_accumulates_within_run
      [of None "\<lparr>listdir = (\<lambda>d. [''a.rpm'']),
                 rpm_qip = (\<lambda>p. (1, [], ''error: open failed''))\<rparr>"
          "[]" "[]" "''earlier''" "''/srv/r1''" "[]"]
    by (simp add: s report_lines_def)
qed

text \<open>
  Claim C3 as it is worded fails: after two runs that both report a package, the file
  holds the report of the second run only.
\<close>

theorem error_log_accumulation_counterexample:
  "export_run
      \<lparr>listdir = (\<lambda>d. if d = ''/srv/r1'' then [''a.rpm''] else [''b.rpm'']),
       rpm_qip = (\<lambda>p. (1, [], ''error: open failed''))\<rparr>
      [] [(''/srv/r1'', [])] None
     = Some (join_lines [''Packages that we cannot get information about:'', ''/srv/r1/a.rpm''])
   \<and> export_run
      \<lparr>listdir = (\<lambda>d. if d = ''/srv/r1'' then [''a.rpm''] else [''b.rpm'']),
       rpm_qip = (\<lambda>p. (1, [], ''error: open failed''))\<rparr>
      [] [(''/srv/r2'', [])]
      (Some (join_lines [''Packages that we cannot get information about:'', ''/srv/r1/a.rpm'']))
     = Some (join_lines [''Packages that we cannot get information about:'', ''/srv/r2/b.rpm''])
   \<and> \<not> str_contains ''/srv/r1/a.rpm''
         (join_lines [''Packages that we cannot get information about:'', ''/srv/r2/b.rpm''])"
  by (simp add: export_run_def exporter_init_def check_rpms_signature_def report_lines_def
        scan_directory_def check_package_def path_join_def endswith_def set_add_def
        no_violations_def)

section \<open>Properties of the pairing\<close>

lemma dict_store_subset: "set (dict_store k v d) \<subseteq> insert (k, v) (set d)"
  by (induction d) (auto split: if_splits)

lemma dict_store_has: "(k, v) \<in> set (dict_store k v d)"
  by (induction d) auto

lemma dict_store_keeps: "(k', v') \<in> set d \<Longrightarrow> k' \<noteq> k \<Longrightarrow> (k', v') \<in> set (dict_store k v d)"
  by (induction d) auto

lemma register_repo_sound:
  "set (fst (register_repo ids r dicts)) \<subseteq>
     set (fst dicts) \<union> {e. \<not> passed_over ids r \<and> repo_arch r = ''x86_64''
                          \<and> e = (get_full_repo_name r, repo_pulp_href r, repo_debug r)}"
  "set (snd (register_repo ids r dicts)) \<subseteq>
     set (snd dicts) \<union> {e. \<not> passed_over ids r \<and> repo_arch r = ''ppc64le''
                          \<and> e = (get_full_repo_name r, repo_pulp_href r, repo_debug r)}"
  using dict_store_subset [of "get_full_repo_name r" "(repo_pulp_href r, repo_debug r)"]
  by (cases dicts; auto simp: register_repo_def Let_def)+

lemma register_repos_sound:
  "set (fst (register_repos ids rs dicts)) \<subseteq>
     set (fst dicts) \<union> {(get_full_repo_name r, repo_pulp_href r, repo_debug r) | r.
                          r \<in> set rs \<and> \<not> passed_over ids r \<and> repo_arch r = ''x86_64''}"
  "set (snd (register_repos ids rs dicts)) \<subseteq>
     set (snd dicts) \<union> {(get_full_repo_name r, repo_pulp_href r, repo_debug r) | r.
                          r \<in> set rs \<and> \<not> passed_over ids r \<and> repo_arch r = ''ppc64le''}"
proof (induction rs arbitrary: dicts)
  case Nil
  { case 1 show ?case by simp next case 2 show ?case by simp }
next
  case (Cons r rs)
  {
    case 1
    show ?case
      using Cons.IH(1) [of "register_repo ids r dicts"] register_repo_sound(1) [of ids r dicts]
      by auto
  next
    case 2
    show ?case
      using Cons.IH(2) [of "register_repo ids r dicts"] register_repo_sound(2) [of ids r dicts]
      by auto
  }
qed

lemma register_repo_keeps:
  "(k, v) \<in> set (fst dicts) \<Longrightarrow> (\<not> passed_over ids r \<longrightarrow> get_full_repo_name r \<noteq> k)
     \<Longrightarrow> (k, v) \<in> set (fst (register_repo ids r dicts))"
  "(k, v) \<in> set (snd dicts) \<Longrightarrow> (\<not> passed_over ids r \<longrightarrow> get_full_repo_name r \<noteq> k)
     \<Longrightarrow> (k, v) \<in> set (snd (register_repo ids r dicts))"
  by (cases dicts; auto simp: register_repo_def Let_def intro: dict_store_keeps)+

lemma register_repos_keeps:
  "(k, v) \<in> set (fst dicts)
     \<Longrightarrow> \<forall>r\<in>set rs. \<not> passed_over ids r \<longrightarrow> get_full_repo_name r \<noteq> k
     \<Longrightarrow> (k, v) \<in> set (fst (register_repos ids rs dicts))"
  "(k, v) \<in> set (snd dicts)
     \<Longrightarrow> \<forall>r\<in>set rs. \<not> passed_over ids r \<longrightarrow> get_full_repo_name r \<noteq> k
     \<Longrightarrow> (k, v) \<in> set (snd (register_repos ids rs dicts))"
proof (induction rs arbitrary: dicts)
  case Nil
  { case 1 then show ?case by simp next case 2 then show ?case by simp }
next
  case (Cons r rs)
  {
    case 1
    then show ?case
      using Cons.IH(1) [of "register_repo ids r dicts"] register_repo_keeps(1) [of k v dicts ids r]
      by simp
  next
    case 2
    then show ?case
      using Cons.IH(2) [of "register_repo ids r dicts"] register_repo_keeps(2) [of k v dicts ids r]
      by simp
  }
qed

lemma register_repo_has:
  "\<not> passed_over ids r \<Longrightarrow> repo_arch r = ''x86_64''
     \<Longrightarrow> (get_full_repo_name r, repo_pulp_href r, repo_debug r)
          \<in> set (fst (register_repo ids r dicts))"
  "\<not> passed_over ids r \<Longrightarrow> repo_arch r = ''ppc64le''
     \<Longrightarrow> (get_full_repo_name r, repo_pulp_href r, repo_debug r)
          \<in> set (snd (register_repo ids r dicts))"
  by (cases dicts; simp add: register_repo_def Let_def dict_store_has)+

lemma register_repos_complete:
  assumes "distinct (map get_full_repo_name (filter (\<lambda>r. \<not> passed_over ids r) rs))"
    and "r \<in> set rs" and "\<not> passed_over ids r"
  shows "repo_arch r = ''x86_64''
     \<Longrightarrow> (get_full_repo_name r, repo_pulp_href r, repo_debug r)
          \<in> set (fst (register_repos ids rs dicts))"
    and "repo_arch r = ''ppc64le''
     \<Longrightarrow> (get_full_repo_name r, repo_pulp_href r, repo_debug r)
          \<in> set (snd (register_repos ids rs dicts))"
  using assms
proof (induction rs arbitrary: dicts)
  case Nil
  { case 1 then show ?case by simp next case 2 then show ?case by simp }
next
  case (Cons a rs)
  {
    case 1
    show ?case
    proof (cases "r \<in> set rs")
      case True
      with 1 Cons.IH(1) [of "register_repo ids a dicts"] show ?thesis
        by (auto split: if_splits)
    next
      case False
      with 1 have ra: "r = a" by simp
      with 1 have fresh: "\<forall>x\<in>set rs. \<not> passed_over ids x \<longrightarrow>
                                get_full_repo_name x \<noteq> get_full_repo_name a"
        by (auto simp: image_iff)
      from 1 ra have "(get_full_repo_name a, repo_pulp_href a, repo_debug a)
                        \<in> set (fst (register_repo ids a dicts))"
        by (simp add: register_repo_has)
      from register_repos_keeps(1) [OF this fresh] ra show ?thesis by simp
    qed
  next
    case 2
    show ?case
    proof (cases "r \<in> set rs")
      case True
      with 2 Cons.IH(2) [of "register_repo ids a dicts"] show ?thesis
        by (auto split: if_splits)
    next
      case False
      with 2 have ra: "r = a" by simp
      with 2 have fresh: "\<forall>x\<in>set rs. \<not> passed_over ids x \<longrightarrow>
                                get_full_repo_name x \<noteq> get_full_repo_name a"
        by (auto simp: image_iff)
      from 2 ra have "(get_full_repo_name a, repo_pulp_href a, repo_debug a)
                        \<in> set (snd (register_repo ids a dicts))"
        by (simp add: register_repo_has)
      from register_repos_keeps(2) [OF this fresh] ra show ?thesis by simp
    qed
  }
qed

lemma tasks_member:
  "t \<in> set (prepare_and_execute_async_tasks flags sd dd) =
     (copy_noarch_packages flags
      \<and> (\<exists>sn sh dn dh dbg. (sn, sh, dbg) \<in> set sd \<and> (dn, dh, dbg) \<in> set dd
            \<and> t = \<lparr>source_repo_name = sn, source_repo_href = sh,
                    destination_repo_name = dn, destination_repo_href = dh\<rparr>))"
proof
  assume "t \<in> set (prepare_and_execute_async_tasks flags sd dd)"
  then show "copy_noarch_packages flags
      \<and> (\<exists>sn sh dn dh dbg. (sn, sh, dbg) \<in> set sd \<and> (dn, dh, dbg) \<in> set dd
            \<and> t = \<lparr>source_repo_name = sn, source_repo_href = sh,
                    destination_repo_name = dn, destination_repo_href = dh\<rparr>)"
    by (auto simp: prepare_and_execute_async_tasks_def tasks_of_source_def split: if_splits)
next
  assume "copy_noarch_packages flags
      \<and> (\<exists>sn sh dn dh dbg. (sn, sh, dbg) \<in> set sd \<and> (dn, dh, dbg) \<in> set dd
            \<and> t = \<lparr>source_repo_name = sn, source_repo_href = sh,
                    destination_repo_name = dn, destination_repo_href = dh\<rparr>)"
  then obtain sn sh dn dh dbg where c: "copy_noarch_packages flags"
    and s: "(sn, sh, dbg) \<in> set sd" and d: "(dn, dh, dbg) \<in> set dd"
    and t: "t = \<lparr>source_repo_name = sn, source_repo_href = sh,
                    destination_repo_name = dn, destination_repo_href = dh\<rparr>" by blast
  from d t have "t \<in> set (tasks_of_source (sn, sh, dbg) dd)"
    by (force simp: tasks_of_source_def)
  with s c show "t \<in> set (prepare_and_execute_async_tasks flags sd dd)"
    by (auto simp: prepare_and_execute_async_tasks_def)
qed

lemma registered_from_repo:
  "e \<in> set (fst (register_repos ids rs ([], []))) \<Longrightarrow>
     \<exists>r\<in>set rs. \<not> passed_over ids r \<and> repo_arch r = ''x86_64''
        \<and> e = (get_full_repo_name r, repo_pulp_href r, repo_debug r)"
  "e \<in> set (snd (register_repos ids rs ([], []))) \<Longrightarrow>
     \<exists>r\<in>set rs. \<not> passed_over ids r \<and> repo_arch r = ''ppc64le''
        \<and> e = (get_full_repo_name r, repo_pulp_href r, repo_debug r)"
  using register_repos_sound(1) [of ids rs "([], [])"] register_repos_sound(2) [of ids rs "([], [])"]
  by auto

lemma register_distribution_repo_sound:
  "set (fst (register_distribution_repo r dicts)) \<subseteq>
     set (fst dicts) \<union> {e. repo_arch r = ''x86_64''
                          \<and> e = (repo_name r, repo_pulp_href r, repo_debug r)}"
  "set (snd (register_distribution_repo r dicts)) \<subseteq>
     set (snd dicts) \<union> {e. repo_arch r \<noteq> ''x86_64'' \<and> repo_arch r \<noteq> ''src''
                          \<and> e = (repo_name r, repo_pulp_href r, repo_debug r)}"
  using dict_store_subset [of "repo_name r" "(repo_pulp_href r, repo_debug r)"]
  by (cases dicts; auto simp: register_distribution_repo_def)+

lemma register_distribution_repos_sound:
  "set (fst (register_distribution_repos rs dicts)) \<subseteq>
     set (fst dicts) \<union> {(repo_name r, repo_pulp_href r, repo_debug r) | r.
                          r \<in> set rs \<and> repo_arch r = ''x86_64''}"
  "set (snd (register_distribution_repos rs dicts)) \<subseteq>
     set (snd dicts) \<union> {(repo_name r, repo_pulp_href r, repo_debug r) | r.
                          r \<in> set rs \<and> repo_arch r \<noteq> ''x86_64'' \<and> repo_arch r \<noteq> ''src''}"
proof (induction rs arbitrary: dicts)
  case Nil
  { case 1 show ?case by simp next case 2 show ?case by simp }
next
  case (Cons r rs)
  {
    case 1
    show ?case
      using Cons.IH(1) [of "register_distribution_repo r dicts"]
        register_distribution_repo_sound(1) [of r dicts]
      by auto
  next
    case 2
    show ?case
      using Cons.IH(2) [of "register_distribution_repo r dicts"]
        register_distribution_repo_sound(2) [of r dicts]
      by auto
  }
qed

lemma distribution_tasks_sound:
  assumes "t \<in> set (check_noarch_in_user_distribution_repos flags distr_repos)"
  shows "\<exists>s\<in>set distr_repos. \<exists>d\<in>set distr_repos.
          repo_arch s = ''x86_64'' \<and> repo_arch d \<noteq> ''x86_64'' \<and> repo_arch d \<noteq> ''src''
          \<and> repo_debug s = repo_debug d
          \<and> t = \<lparr>source_repo_name = repo_name s, source_repo_href = repo_pulp_href s,
                  destination_repo_name = repo_name d,
                  destination_repo_href = repo_pulp_href d\<rparr>"
proof -
  let ?dicts = "register_distribution_repos distr_repos ([], [])"
  from assms obtain sn sh dn dh dbg where
    s: "(sn, sh, dbg) \<in> set (fst ?dicts)" and d: "(dn, dh, dbg) \<in> set (snd ?dicts)" and
    t: "t = \<lparr>source_repo_name = sn, source_repo_href = sh,
              destination_repo_name = dn, destination_repo_href = dh\<rparr>"
    by (auto simp: check_noarch_in_user_distribution_repos_def split_beta tasks_member)
  from s register_distribution_repos_sound(1) [of distr_repos "([], [])"] obtain rs where
    rs: "rs \<in> set distr_repos" "repo_arch rs = ''x86_64''"
        "(sn, sh, dbg) = (repo_name rs, repo_pulp_href rs, repo_debug rs)"
    by auto
  from d register_distribution_repos_sound(2) [of distr_repos "([], [])"] obtain rd where
    rd: "rd \<in> set distr_repos" "repo_arch rd \<noteq> ''x86_64''" "repo_arch rd \<noteq> ''src''"
        "(dn, dh, dbg) = (repo_name rd, repo_pulp_href rd, repo_debug rd)"
    by auto
  from rs rd t show ?thesis
    by (intro bexI [of _ rs] bexI [of _ rd]) auto
qed

text \<open>
  Claim C8, as the code has it. The repositories selected by the export (requested, and
  not marked as out of production) of all the platforms of the query are taken together.
  Every reconciliation that is started has an \<^verbatim>\<open>x86_64\<close> repository among them as
  its source and a \<^verbatim>\<open>ppc64le\<close> repository among them as its destination, with the
  same debug flag. When copying is enabled and the full names of the selected
  repositories differ from each other, every such pair is reconciled. When copying is
  disabled nothing is reconciled. In the check of a distribution, every reconciliation
  that is started has an \<^verbatim>\<open>x86_64\<close> repository of the distribution as its source
  and, as its destination, a repository of the distribution whose architecture is
  neither \<^verbatim>\<open>x86_64\<close> nor \<^verbatim>\<open>src\<close>, with the same debug flag.
\<close>

theorem export_pairs:
  "let selected = filter (\<lambda>r. \<not> passed_over repo_ids r)
                    (concat (map platform_repos db_platforms));
       tasks = export_repos_from_pulp_tasks flags repo_ids db_platforms;
       task = (\<lambda>s d. \<lparr>source_repo_name = get_full_repo_name s,
                       source_repo_href = repo_pulp_href s,
                       destination_repo_name = get_full_repo_name d,
                       destination_repo_href = repo_pulp_href d\<rparr>)
   in (\<forall>t\<in>set tasks. \<exists>s\<in>set selected. \<exists>d\<in>set selected.
          repo_arch s = ''x86_64'' \<and> repo_arch d = ''ppc64le''
          \<and> repo_debug s = repo_debug d \<and> t = task s d)
      \<and> (copy_noarch_packages flags \<and> distinct (map get_full_repo_name selected) \<longrightarrow>
          (\<forall>s\<in>set selected. \<forall>d\<in>set selected.
              repo_arch s = ''x86_64'' \<and> repo_arch d = ''ppc64le''
              \<and> repo_debug s = repo_debug d \<longrightarrow> task s d \<in> set tasks))
      \<and> (\<not> copy_noarch_packages flags \<longrightarrow> tasks = [])
      \<and> (\<forall>t\<in>set (check_noarch_in_user_distribution_repos flags distr_repos).
            \<exists>s\<in>set distr_repos. \<exists>d\<in>set distr_repos.
              repo_arch s = ''x86_64'' \<and> repo_arch d \<noteq> ''x86_64'' \<and> repo_arch d \<noteq> ''src''
              \<and> repo_debug s = repo_debug d
              \<and> t = \<lparr>source_repo_name = repo_name s, source_repo_href = repo_pulp_href s,
                      destination_repo_name = repo_name d,
                      destination_repo_href = repo_pulp_href d\<rparr>)"
proof -
  let ?rs = "concat (map platform_repos db_platforms)"
  let ?sel = "filter (\<lambda>r. \<not> passed_over repo_ids r) ?rs"
  let ?dicts = "register_repos repo_ids ?rs ([], [])"
  let ?task = "\<lambda>s d. \<lparr>source_repo_name = get_full_repo_name s,
                       source_repo_href = repo_pulp_href s,
                       destination_repo_name = get_full_repo_name d,
                       destination_repo_href = repo_pulp_href d\<rparr>"
  have tasks: "export_repos_from_pulp_tasks flags repo_ids db_platforms
                 = prepare_and_execute_async_tasks flags (fst ?dicts) (snd ?dicts)"
    by (simp add: export_repos_from_pulp_tasks_def split_beta)
  have sound: "\<exists>s\<in>set ?sel. \<exists>d\<in>set ?sel.
          repo_arch s = ''x86_64'' \<and> repo_arch d = ''ppc64le''
          \<and> repo_debug s = repo_debug d \<and> t = ?task s d"
    if "t \<in> set (export_repos_from_pulp_tasks flags repo_ids db_platforms)" for t
  proof -
    from that obtain sn sh dn dh dbg where
      s: "(sn, sh, dbg) \<in> set (fst ?dicts)" and d: "(dn, dh, dbg) \<in> set (snd ?dicts)" and
      t: "t = \<lparr>source_repo_name = sn, source_repo_href = sh,
                destination_repo_name = dn, destination_repo_href = dh\<rparr>"
      unfolding tasks tasks_member by blast
    from registered_from_repo(1) [OF s] obtain rs where
      rs: "rs \<in> set ?rs" "\<not> passed_over repo_ids rs" "repo_arch rs = ''x86_64''"
          "(sn, sh, dbg) = (get_full_repo_name rs, repo_pulp_href rs, repo_debug rs)"
      by blast
    from registered_from_repo(2) [OF d] obtain rd where
      rd: "rd \<in> set ?rs" "\<not> passed_over repo_ids rd" "repo_arch rd = ''ppc64le''"
          "(dn, dh, dbg) = (get_full_repo_name rd, repo_pulp_href rd, repo_debug rd)"
      by blast
    from rs rd t show ?thesis
      by (intro bexI [of _ rs] bexI [of _ rd]) auto
  qed
  have complete: "?task s d \<in> set (export_repos_from_pulp_tasks flags repo_ids db_platforms)"
    if c: "copy_noarch_packages flags" and dist: "distinct (map get_full_repo_name ?sel)"
      and s: "s \<in> set ?sel" and d: "d \<in> set ?sel"
      and a: "repo_arch s = ''x86_64''" "repo_arch d = ''ppc64le''" "repo_debug s = repo_debug d"
    for s d
  proof -
    from s have s': "s \<in> set ?rs" "\<not> passed_over repo_ids s" by auto
    from d have d': "d \<in> set ?rs" "\<not> passed_over repo_ids d" by auto
    have 1: "(get_full_repo_name s, repo_pulp_href s, repo_debug s) \<in> set (fst ?dicts)"
      using register_repos_complete(1) [OF dist s' a(1)] .
    have 2: "(get_full_repo_name d, repo_pulp_href d, repo_debug s) \<in> set (snd ?dicts)"
      using register_repos_complete(2) [OF dist d' a(2)] a(3) by simp
    from c 1 2 show ?thesis unfolding tasks tasks_member by blast
  qed
  have off: "export_repos_from_pulp_tasks flags repo_ids db_platforms = []"
    if "\<not> copy_noarch_packages flags"
    using that by (simp add: tasks prepare_and_execute_async_tasks_def)
  have distr: "\<forall>t\<in>set (check_noarch_in_user_distribution_repos flags distr_repos).
            \<exists>s\<in>set distr_repos. \<exists>d\<in>set distr_repos.
              repo_arch s = ''x86_64'' \<and> repo_arch d \<noteq> ''x86_64'' \<and> repo_arch d \<noteq> ''src''
              \<and> repo_debug s = repo_debug d
              \<and> t = \<lparr>source_repo_name = repo_name s, source_repo_href = repo_pulp_href s,
                      destination_repo_name = repo_name d,
                      destination_repo_href = repo_pulp_href d\<rparr>"
    using distribution_tasks_sound by blast
  have main: "(\<forall>t\<in>set (export_repos_from_pulp_tasks flags repo_ids db_platforms).
          \<exists>s\<in>set ?sel. \<exists>d\<in>set ?sel.
            repo_arch s = ''x86_64'' \<and> repo_arch d = ''ppc64le''
            \<and> repo_debug s = repo_debug d \<and> t = ?task s d)
      \<and> (copy_noarch_packages flags \<and> distinct (map get_full_repo_name ?sel) \<longrightarrow>
          (\<forall>s\<in>set ?sel. \<forall>d\<in>set ?sel.
              repo_arch s = ''x86_64'' \<and> repo_arch d = ''ppc64le''
              \<and> repo_debug s = repo_debug d \<longrightarrow>
              ?task s d \<in> set (export_repos_from_pulp_tasks flags repo_ids db_platforms)))
      \<and> (\<not> copy_noarch_packages flags \<longrightarrow>
          export_repos_from_pulp_tasks flags repo_ids db_platforms = [])"
    using sound complete off by blast
  from main distr show ?thesis unfolding Let_def by (intro conjI) blast+
qed

text \<open>
  A platform with an \<^verbatim>\<open>x86_64\<close> repository and two \<^verbatim>\<open>ppc64le\<close> repositories,
  one of them for debug packages: the only pair is the one with equal debug flags.
\<close>

theorem export_pairs_witness:
  "distinct (map get_full_repo_name (filter (\<lambda>r. \<not> passed_over None r)
      (concat (map platform_repos
        [\<lparr>platform_id = 1,
          platform_repos =
            [\<lparr>repo_id = 1, repo_name = ''baseos'', repo_arch = ''x86_64'',
              repo_debug = False, repo_production = Some True, repo_pulp_href = ''/repo/1/'',
              repo_export_path = ''8/BaseOS/x86_64/os''\<rparr>,
             \<lparr>repo_id = 2, repo_name = ''baseos'', repo_arch = ''ppc64le'',
              repo_debug = False, repo_production = Some True, repo_pulp_href = ''/repo/2/'',
              repo_export_path = ''8/BaseOS/ppc64le/os''\<rparr>,
             \<lparr>repo_id = 3, repo_name = ''baseos'', repo_arch = ''ppc64le'',
              repo_debug = True, repo_production = Some True, repo_pulp_href = ''/repo/3/'',
              repo_export_path = ''8/BaseOS/ppc64le/debug''\<rparr>],
          platform_sign_keys = []\<rparr>]))))
   \<and> export_repos_from_pulp_tasks
      \<lparr>copy_noarch_packages = True, only_check_noarch = False, show_differ_packages = False\<rparr>
      None
      [\<lparr>platform_id = 1,
        platform_repos =
          [\<lparr>repo_id = 1, repo_name = ''baseos'', repo_arch = ''x86_64'',
            repo_debug = False, repo_production = Some True, repo_pulp_href = ''/repo/1/'',
            repo_export_path = ''8/BaseOS/x86_64/os''\<rparr>,
           \<lparr>repo_id = 2, repo_name = ''baseos'', repo_arch = ''ppc64le'',
            repo_debug = False, repo_production = Some True, repo_pulp_href = ''/repo/2/'',
            repo_export_path = ''8/BaseOS/ppc64le/os''\<rparr>,
           \<lparr>repo_id = 3, repo_name = ''baseos'', repo_arch = ''ppc64le'',
            repo_debug = True, repo_production = Some True, repo_pulp_href = ''/repo/3/'',
            repo_export_path = ''8/BaseOS/ppc64le/debug''\<rparr>],
        platform_sign_keys = []\<rparr>]
     = [\<lparr>source_repo_name = ''baseos-x86_64'', source_repo_href = ''/repo/1/'',
         destination_repo_name = ''baseos-ppc64le'', destination_repo_href = ''/repo/2/''\<rparr>]
   \<and> check_noarch_in_user_distribution_repos
      \<lparr>copy_noarch_packages = True, only_check_noarch = False, show_differ_packages = False\<rparr>
      [\<lparr>repo_id = 7, repo_name = ''custom'', repo_arch = ''x86_64'',
        repo_debug = False, repo_production = Some False, repo_pulp_href = ''/repo/7/'',
        repo_export_path = ''custom/x86_64''\<rparr>,
       \<lparr>repo_id = 8, repo_name = ''custom-arm'', repo_arch = ''aarch64'',
        repo_debug = False, repo_production = Some False, repo_pulp_href = ''/repo/8/'',
        repo_export_path = ''custom/aarch64''\<rparr>]
     = [\<lparr>source_repo_name = ''custom'', source_repo_href = ''/repo/7/'',
         destination_repo_name = ''custom-arm'', destination_repo_href = ''/repo/8/''\<rparr>]"
  using export_pairs
     [of None
         "[\<lparr>platform_id = 1,
        platform_repos =
          [\<lparr>repo_id = 1, repo_name = ''baseos'', repo_arch = ''x86_64'',
            repo_debug = False, repo_production = Some True, repo_pulp_href = ''/repo/1/'',
            repo_export_path = ''8/BaseOS/x86_64/os''\<rparr>,
           \<lparr>repo_id = 2, repo_name = ''baseos'', repo_arch = ''ppc64le'',
            repo_debug = False, repo_production = Some True, repo_pulp_href = ''/repo/2/'',
            repo_export_path = ''8/BaseOS/ppc64le/os''\<rparr>,
           \<lparr>repo_id = 3, repo_name = ''baseos'', repo_arch = ''ppc64le'',
            repo_debug = True, repo_production = Some True, repo_pulp_href = ''/repo/3/'',
            repo_export_path = ''8/BaseOS/ppc64le/debug''\<rparr>],
        platform_sign_keys = []\<rparr>]"
         "\<lparr>copy_noarch_packages = True, only_check_noarch = False,
           show_differ_packages = False\<rparr>"
         "[\<lparr>repo_id = 7, repo_name = ''custom'', repo_arch = ''x86_64'',
        repo_debug = False, repo_production = Some False, repo_pulp_href = ''/repo/7/'',
        repo_export_path = ''custom/x86_64''\<rparr>,
       \<lparr>repo_id = 8, repo_name = ''custom-arm'', repo_arch = ''aarch64'',
        repo_debug = False, repo_production = Some False, repo_pulp_href = ''/repo/8/'',
        repo_export_path = ''custom/aarch64''\<rparr>]"]
  by (simp add: export_repos_from_pulp_tasks_def register_repo_def passed_over_def
        prepare_and_execute_async_tasks_def tasks_of_source_def get_full_repo_name_def
        check_noarch_in_user_distribution_repos_def register_distribution_repo_def)

text \<open>
  Claim C8 as it is worded fails: for a platform with an \<^verbatim>\<open>x86_64\<close> and an
  \<^verbatim>\<open>aarch64\<close> repository with the same debug flag, no reconciliation is started.
\<close>

theorem export_pairs_counterexample:
  "export_repos_from_pulp_tasks
     \<lparr>copy_noarch_packages = True, only_check_noarch = False, show_differ_packages = False\<rparr>
     None
     [\<lparr>platform_id = 1,
       platform_repos =
         [\<lparr>repo_id = 1, repo_name = ''almalinux-8-baseos'', repo_arch = ''x86_64'',
           repo_debug = False, repo_production = Some True, repo_pulp_href = ''/repo/1/'',
           repo_export_path = ''almalinux/8/BaseOS/x86_64/os''\<rparr>,
          \<lparr>repo_id = 2, repo_name = ''almalinux-8-baseos'', repo_arch = ''aarch64'',
           repo_debug = False, repo_production = Some True, repo_pulp_href = ''/repo/2/'',
           repo_export_path = ''almalinux/8/BaseOS/aarch64/os''\<rparr>],
       platform_sign_keys = []\<rparr>] = []"
  by (simp add: export_repos_from_pulp_tasks_def register_repo_def passed_over_def
        prepare_and_execute_async_tasks_def tasks_of_source_def get_full_repo_name_def)

section \<open>Properties of the ownership handling\<close>

lemma try_finally_revert:
  "commands_run (snd (try_finally body (run_command fails (Chown u p)) fs))
     = commands_run (snd (body fs)) @ [Chown u p]
   \<and> (\<not> fails (commands_run (snd (body fs))) (Chown u p) \<longrightarrow>
        path_owner (snd (try_finally body (run_command fails (Chown u p)) fs)) p = u)"
  by (cases "body fs") (simp add: try_finally_def run_command_def Let_def)

text \<open>
  Claim C9, as the code has it: when an exported path exists, both loops end their work
  on it with the command that gives the path back to the system user of the content
  service, whichever of the commands before it failed; provided that this last command
  itself does not fail, the path is owned by the system user afterwards. When the path
  does not exist no command is run on it.
\<close>

theorem ownership_reverted:
  "(let fs' = snd (verify_exported_path fails current_user True repo_path fs) in
      commands_run fs' \<noteq> []
      \<and> last (commands_run fs') = Chown pulp_system_user repo_path
      \<and> (\<not> fails (butlast (commands_run fs')) (Chown pulp_system_user repo_path) \<longrightarrow>
           path_owner fs' repo_path = pulp_system_user))
   \<and> (let fs' = snd (sign_exported_path fails current_user True exp_path repo_path repodata fs) in
      commands_run fs' \<noteq> []
      \<and> last (commands_run fs') = Chown pulp_system_user repo_path
      \<and> (\<not> fails (butlast (commands_run fs')) (Chown pulp_system_user repo_path) \<longrightarrow>
           path_owner fs' repo_path = pulp_system_user))
   \<and> verify_exported_path fails current_user False repo_path fs = (Inr (), fs)
   \<and> sign_exported_path fails current_user False exp_path repo_path repodata fs = (Inr (), fs)"
proof -
  have "commands_run fs' \<noteq> []
      \<and> last (commands_run fs') = Chown u p
      \<and> (\<not> fails (butlast (commands_run fs')) (Chown u p) \<longrightarrow> path_owner fs' p = u)"
    if "fs' = snd (try_finally body (run_command fails (Chown u p)) fs)" for fs' body u p
    using try_finally_revert [of body fails u p fs] that by simp
  then show ?thesis
    by (simp add: verify_exported_path_def sign_exported_path_def Let_def)
qed

text \<open>
  The removal of partial metadata fails in the first loop and the regeneration of the
  metadata in the second: the ownership is given back in both.
\<close>

theorem ownership_reverted_witness:
  "(let fs' = snd (verify_exported_path
                     (\<lambda>before c. c = CheckRpmsSignature ''/srv/repo'' \<or> c = RemoveSnippets ''/srv/repo'')
                     ''operator'' True ''/srv/repo''
                     \<lparr>path_owner = (\<lambda>p. ''pulp''), commands_run = []\<rparr>) in
     commands_run fs' = [Chown ''operator'' ''/srv/repo'', RemoveSnippets ''/srv/repo'',
                         Chown ''pulp'' ''/srv/repo'']
     \<and> path_owner fs' ''/srv/repo'' = ''pulp'')
   \<and> fst (verify_exported_path
                     (\<lambda>before c. c = CheckRpmsSignature ''/srv/repo'' \<or> c = RemoveSnippets ''/srv/repo'')
                     ''operator'' True ''/srv/repo''
                     \<lparr>path_owner = (\<lambda>p. ''pulp''), commands_run = []\<rparr>)
       = Inl (Raised (RemoveSnippets ''/srv/repo''))
   \<and> (let fs' = snd (sign_exported_path
                     (\<lambda>before c. c = RegenerateRepoMetadata ''/srv/ppc64le'')
                     ''operator'' True ''/srv/ppc64le/Packages'' ''/srv/ppc64le''
                     ''/srv/ppc64le/repodata''
                     \<lparr>path_owner = (\<lambda>p. ''pulp''), commands_run = []\<rparr>) in
     commands_run fs' = [Chown ''operator'' ''/srv/ppc64le'',
                         RegenerateRepoMetadata ''/srv/ppc64le'',
                         Chown ''pulp'' ''/srv/ppc64le'']
     \<and> path_owner fs' ''/srv/ppc64le'' = ''pulp'')"
  using ownership_reverted
     [of "(\<lambda>before c. c = CheckRpmsSignature ''/srv/repo'' \<or> c = RemoveSnippets ''/srv/repo'')"
         "''operator''" "''/srv/repo''" "\<lparr>path_owner = (\<lambda>p. ''pulp''), commands_run = []\<rparr>"]
  by (simp add: verify_exported_path_def sign_exported_path_def try_finally_def run_command_def
        pulp_system_user_def Let_def)

text \<open>
  Claim C9 as it is worded fails: the command that gives the path back is itself a
  process that can fail. When the removal of partial metadata fails and the reverting
  \<^verbatim>\<open>chown\<close> fails too, the reversion has been run and the path is still owned by
  the operator.
\<close>

theorem ownership_reverted_counterexample:
  "commands_run (snd (verify_exported_path
       (\<lambda>before c. c = RemoveSnippets ''/srv/repo'' \<or> c = Chown ''pulp'' ''/srv/repo'')
       ''operator'' True ''/srv/repo''
       \<lparr>path_owner = (\<lambda>p. ''pulp''), commands_run = []\<rparr>))
     = [Chown ''operator'' ''/srv/repo'', RemoveSnippets ''/srv/repo'',
        Chown ''pulp'' ''/srv/repo'']
   \<and> path_owner (snd (verify_exported_path
       (\<lambda>before c. c = RemoveSnippets ''/srv/repo'' \<or> c = Chown ''pulp'' ''/srv/repo'')
       ''operator'' True ''/srv/repo''
       \<lparr>path_owner = (\<lambda>p. ''pulp''), commands_run = []\<rparr>)) ''/srv/repo''
     = ''operator''
   \<and> fst (verify_exported_path
       (\<lambda>before c. c = RemoveSnippets ''/srv/repo'' \<or> c = Chown ''pulp'' ''/srv/repo'')
       ''operator'' True ''/srv/repo''
       \<lparr>path_owner = (\<lambda>p. ''pulp''), commands_run = []\<rparr>)
     = Inl (Raised (Chown ''pulp'' ''/srv/repo''))"
  by (simp add: verify_exported_path_def try_finally_def run_command_def
        pulp_system_user_def Let_def)

end
